theory Spec2Isabelle
  imports Main
begin

section \<open>Search client: identifier normalisation and retry (src/lib/arxiv.ts)\<close>

subsection \<open>getCleanId\<close>

text \<open>
  JavaScript's \<^verbatim>\<open>s.replace(/^p/, '')\<close> for a literal pattern \<open>p\<close> anchored at the
  start: the prefix is removed when the string starts with it, otherwise the string
  is returned as it is.
\<close>

definition replace_prefix :: "string \<Rightarrow> string \<Rightarrow> string \<Rightarrow> string" where
  "replace_prefix p r s = (if take (length p) s = p then r @ drop (length p) s else s)"

definition http_abs :: string where
  "http_abs = ''http://arxiv.org/abs/''"

definition https_abs :: string where
  "https_abs = ''https://arxiv.org/abs/''"

text \<open>
  \<^verbatim>\<open>id.replace(/^http:\/\/arxiv\.org\/abs\//, '').replace(/^https:\/\/arxiv\.org\/abs\//, '')\<close>
\<close>

definition getCleanId :: "string \<Rightarrow> string" where
  "getCleanId ident = replace_prefix https_abs [] (replace_prefix http_abs [] ident)"

subsection \<open>fetchWithRetry\<close>

text \<open>
  One call of \<^verbatim>\<open>axios.get\<close> either resolves with a response or rejects with an
  error; \<^verbatim>\<open>error.response?.status\<close> is the status code of the error when the server
  answered, and undefined (\<open>None\<close>) when there was no response at all.
\<close>

datatype 'r http_result = Response 'r | HttpError "nat option"

text \<open>What the client does, in order: a request sent, or a wait of so many milliseconds.\<close>

datatype event = Request | Sleep nat

text \<open>
  The remote endpoint is a function from the number of requests already sent to the
  outcome of the next one. \<open>fetchWithRetry remote k retries backoff\<close> is the call of
  the source made when \<open>k\<close> requests have been sent; it returns what the source
  returns or throws, with the events of the call.
\<close>

fun fetchWithRetry ::
  "(nat \<Rightarrow> 'r http_result) \<Rightarrow> nat \<Rightarrow> nat \<Rightarrow> nat \<Rightarrow> 'r http_result \<times> event list" where
  "fetchWithRetry remote k 0 backoff =
     (case remote k of
        Response r \<Rightarrow> (Response r, [Request])
      | HttpError st \<Rightarrow> (HttpError st, [Request]))"
| "fetchWithRetry remote k (Suc retries) backoff =
     (case remote k of
        Response r \<Rightarrow> (Response r, [Request])
      | HttpError st \<Rightarrow>
          if st = Some 429
          then (let (res, evs) = fetchWithRetry remote (Suc k) retries (backoff * 2)
                in (res, Request # Sleep backoff # evs))
          else (HttpError st, [Request]))"

text \<open>The defaults of the source: \<^verbatim>\<open>retries = 3, backoff = 1000\<close>.\<close>

definition fetchWithRetry_default ::
  "(nat \<Rightarrow> 'r http_result) \<Rightarrow> 'r http_result \<times> event list" where
  "fetchWithRetry_default remote = fetchWithRetry remote 0 3 1000"

definition requests :: "event list \<Rightarrow> nat" where
  "requests evs = length (filter (\<lambda>e. e = Request) evs)"

definition always_429 :: "nat \<Rightarrow> unit http_result" where
  "always_429 k = HttpError (Some 429)"

definition server_error_once :: "nat \<Rightarrow> unit http_result" where
  "server_error_once k = (if k = 0 then HttpError (Some 500) else Response ())"

section \<open>JavaScript values and the failures of the platform\<close>

text \<open>
  A value read by \<^verbatim>\<open>JSON.parse\<close>. The source never computes with a number, so a
  number is kept as its literal; an object is the list of its members, each key once.
\<close>

datatype json =
    JNull
  | JBool bool
  | JNum string
  | JStr string
  | JArr "json list"
  | JObj "(string \<times> json) list"

text \<open>
  What the source throws, or what a library it calls throws:
  \<^item> \<open>Unauthorized\<close>, \<open>NoEmail\<close>: the two errors of \<^verbatim>\<open>getCurrentUser\<close>;
  \<^item> \<open>MissingApiKey\<close>: \<^verbatim>\<open>GEMINI_API_KEY not found in environment variables.\<close>;
  \<^item> \<open>TransportError m\<close>: a rejected HTTP request or model call, with its message;
  \<^item> \<open>AnalyzeFailed e\<close>: \<^verbatim>\<open>Failed to analyze PDF.\<close> followed by the message of \<open>e\<close>;
  \<^item> \<open>TypeError\<close>: a property read on null, or a call of something that is no function;
  \<^item> \<open>SyntaxError\<close>: \<^verbatim>\<open>JSON.parse\<close> on a text that is not JSON;
  \<^item> \<open>ValidationError\<close>: the store's client refuses an argument of the wrong type
    (an invalid Date, a number where a string column is written);
  \<^item> \<open>RecordNotFound\<close>: an update or delete of a row that does not exist;
  \<^item> \<open>InconsistentResult\<close>: a required relation has no row.
\<close>

datatype error =
    Unauthorized
  | NoEmail
  | MissingApiKey
  | TransportError string
  | AnalyzeFailed error
  | TypeError
  | SyntaxError
  | ValidationError
  | RecordNotFound
  | InconsistentResult

text \<open>A string that may be null or undefined is truthy when it is present and not empty.\<close>

definition truthy :: "string option \<Rightarrow> bool" where
  "truthy s = (case s of None \<Rightarrow> False | Some v \<Rightarrow> v \<noteq> [])"

text \<open>\<^verbatim>\<open>a || b\<close> with a string \<open>b\<close>.\<close>

definition or_else :: "string option \<Rightarrow> string \<Rightarrow> string" where
  "or_else a b = (case a of None \<Rightarrow> b | Some v \<Rightarrow> if v = [] then b else v)"

text \<open>A template literal prints null as the four letters.\<close>

definition template :: "string option \<Rightarrow> string" where
  "template s = (case s of None \<Rightarrow> ''null'' | Some v \<Rightarrow> v)"

text \<open>
  A string is the UTF-8 encoding of the JavaScript string. White space, for
  \<^verbatim>\<open>trim\<close> and \<^verbatim>\<open>\s\<close>, is the white space and the line terminators of
  ECMAScript, each by its encoding: U+0009 to U+000D, U+0020, U+00A0, U+1680,
  U+2000 to U+200A, U+2028, U+2029, U+202F, U+205F, U+3000 and U+FEFF.
\<close>

definition white_space :: "string list" where
  "white_space =
     [[CHR 0x09], [CHR 0x0A], [CHR 0x0B], [CHR 0x0C], [CHR 0x0D], [CHR 0x20],
      [CHR 0xC2, CHR 0xA0],
      [CHR 0xE1, CHR 0x9A, CHR 0x80],
      [CHR 0xE2, CHR 0x80, CHR 0x80], [CHR 0xE2, CHR 0x80, CHR 0x81],
      [CHR 0xE2, CHR 0x80, CHR 0x82], [CHR 0xE2, CHR 0x80, CHR 0x83],
      [CHR 0xE2, CHR 0x80, CHR 0x84], [CHR 0xE2, CHR 0x80, CHR 0x85],
      [CHR 0xE2, CHR 0x80, CHR 0x86], [CHR 0xE2, CHR 0x80, CHR 0x87],
      [CHR 0xE2, CHR 0x80, CHR 0x88], [CHR 0xE2, CHR 0x80, CHR 0x89],
      [CHR 0xE2, CHR 0x80, CHR 0x8A],
      [CHR 0xE2, CHR 0x80, CHR 0xA8], [CHR 0xE2, CHR 0x80, CHR 0xA9],
      [CHR 0xE2, CHR 0x80, CHR 0xAF],
      [CHR 0xE2, CHR 0x81, CHR 0x9F],
      [CHR 0xE3, CHR 0x80, CHR 0x80],
      [CHR 0xEF, CHR 0xBB, CHR 0xBF]]"

text \<open>
  The number of bytes of the first of the sequences \<open>seqs\<close> that \<open>s\<close> starts with,
  and 0 when it starts with none of them.
\<close>

definition width_at_start :: "string list \<Rightarrow> string \<Rightarrow> nat" where
  "width_at_start seqs s =
     (case find (\<lambda>w. take (length w) s = w) seqs of None \<Rightarrow> 0 | Some w \<Rightarrow> length w)"

text \<open>The string without the sequences of \<open>seqs\<close> that it starts with.\<close>

function strip_start :: "string list \<Rightarrow> string \<Rightarrow> string" where
  "strip_start seqs [] = []"
| "strip_start seqs (c # cs) =
     (if width_at_start seqs (c # cs) = 0 then c # cs
      else strip_start seqs (drop (width_at_start seqs (c # cs) - 1) cs))"
  by pat_completeness auto
termination
  by (relation "measure (\<lambda>(seqs, s). length s)") auto

text \<open>
  \<^verbatim>\<open>s.trim()\<close>: the white space is stripped from the start, and from the end (where
  the string read backwards starts with the bytes of a white space read backwards).
\<close>

definition trim :: "string \<Rightarrow> string" where
  "trim s = rev (strip_start (map rev white_space) (rev (strip_start white_space s)))"

text \<open>\<^verbatim>\<open>s.replace(/\s+/g, ' ')\<close>: every maximal run of white space becomes one space.\<close>

function collapse_from :: "bool \<Rightarrow> string \<Rightarrow> string" where
  "collapse_from in_run [] = []"
| "collapse_from in_run (c # cs) =
     (if width_at_start white_space (c # cs) = 0 then c # collapse_from False cs
      else if in_run
      then collapse_from True (drop (width_at_start white_space (c # cs) - 1) cs)
      else CHR 0x20 # collapse_from True (drop (width_at_start white_space (c # cs) - 1) cs))"
  by pat_completeness auto
termination
  by (relation "measure (\<lambda>(in_run, s). length s)") auto

definition collapse_spaces :: "string \<Rightarrow> string" where
  "collapse_spaces s = collapse_from False s"

text \<open>
  \<^verbatim>\<open>text.replace(/<fence>json|<fence>/g, '')\<close>, where \<^verbatim>\<open><fence>\<close> is three grave accents
  (character 0x60): at each position the longer alternative is tried first.
\<close>

definition fence :: string where
  "fence = [CHR 0x60, CHR 0x60, CHR 0x60]"

function strip_fences :: "string \<Rightarrow> string" where
  "strip_fences [] = []"
| "strip_fences (c # cs) =
     (if take 7 (c # cs) = fence @ ''json'' then strip_fences (drop 6 cs)
      else if take 3 (c # cs) = fence then strip_fences (drop 2 cs)
      else c # strip_fences cs)"
  by pat_completeness auto
termination
  by (relation "measure length") auto

text \<open>
  \<^verbatim>\<open>s.includes(sep)\<close> and \<^verbatim>\<open>s.split(sep)\<close> for a separator that is not empty.
  \<open>split_at sep s\<close> is the text before the first occurrence of \<open>sep\<close> and the text
  after it, when there is one.
\<close>

fun split_at :: "string \<Rightarrow> string \<Rightarrow> (string \<times> string) option" where
  "split_at sep [] = (if sep = [] then Some ([], []) else None)"
| "split_at sep (c # cs) =
     (if take (length sep) (c # cs) = sep then Some ([], drop (length sep) (c # cs))
      else (case split_at sep cs of
              None \<Rightarrow> None
            | Some (before, rest) \<Rightarrow> Some (c # before, rest)))"

definition js_includes :: "string \<Rightarrow> string \<Rightarrow> bool" where
  "js_includes s sep = (split_at sep s \<noteq> None)"

text \<open>\<^verbatim>\<open>s.split(sep)[1]\<close>: the second piece, undefined when \<open>sep\<close> does not occur.\<close>

definition split_second :: "string \<Rightarrow> string \<Rightarrow> string option" where
  "split_second s sep =
     (case split_at sep s of
        None \<Rightarrow> None
      | Some (before, rest) \<Rightarrow>
          (case split_at sep rest of
             None \<Rightarrow> Some rest
           | Some (piece, others) \<Rightarrow> Some piece))"

text \<open>
  A property read \<^verbatim>\<open>v.key\<close> on a parsed value, for the keys the source reads
  (\<^verbatim>\<open>summary\<close>, \<^verbatim>\<open>institution\<close>, \<^verbatim>\<open>topics\<close>), which no prototype defines: a
  TypeError on null, the member of an object, and undefined (\<open>None\<close>) otherwise.
\<close>

fun js_get :: "json \<Rightarrow> string \<Rightarrow> error + json option" where
  "js_get JNull key = Inl TypeError"
| "js_get (JObj members) key = Inr (map_of members key)"
| "js_get v key = Inr None"

section \<open>The catalog store\<close>

text \<open>
  The tables of the store, each a list of rows in insertion order. Row identifiers that
  the store generates (user and topic ids) are natural numbers here; a timestamp is a
  number of milliseconds. The Paper table has the columns the source reads and writes,
  and the two timestamps of the migration: \<open>createdAt\<close>, which defaults to the time
  of the insert, and \<open>updatedAt\<close>, a column without default that no write of the
  source supplies: the store's client stamps it on every write of the row's columns.
\<close>

type_synonym timestamp = int

record user_row =
  user_id :: nat
  user_email :: string
  user_name :: string

record paper_row =
  paper_id :: string
  title :: string
  authors :: string
  abstract :: "string option"
  summary :: "string option"
  institution :: "string option"
  url :: "string option"
  filePath :: "string option"
  publishedDate :: "timestamp option"
  createdAt :: timestamp
  updatedAt :: timestamp

record saved_row =
  userId :: nat
  paperId :: string
  savedAt :: timestamp

record topic_row =
  topic_id :: nat
  topic_name :: string

text \<open>\<open>paperTopics\<close> is the join table of the many-to-many relation of Paper and Topic.\<close>

record db =
  users :: "user_row list"
  papers :: "paper_row list"
  savedPapers :: "saved_row list"
  topics :: "topic_row list"
  paperTopics :: "(string \<times> nat) list"

definition empty_db :: db where
  "empty_db = \<lparr>users = [], papers = [], savedPapers = [], topics = [], paperTopics = []\<rparr>"

text \<open>An identifier that no row of the table has.\<close>

definition fresh_id :: "nat list \<Rightarrow> nat" where
  "fresh_id ids = Suc (fold max ids 0)"

definition find_paper :: "db \<Rightarrow> string \<Rightarrow> paper_row option" where
  "find_paper d pid = find (\<lambda>r. paper_id r = pid) (papers d)"

definition find_saved :: "db \<Rightarrow> nat \<Rightarrow> string \<Rightarrow> saved_row option" where
  "find_saved d uid pid = find (\<lambda>s. userId s = uid \<and> paperId s = pid) (savedPapers d)"

definition find_topic :: "db \<Rightarrow> string \<Rightarrow> topic_row option" where
  "find_topic d n = find (\<lambda>t. topic_name t = n) (topics d)"

text \<open>
  \<^verbatim>\<open>include: { topics: true }\<close>: the topics joined to a paper. The query has no
  \<^verbatim>\<open>orderBy\<close>, so the array comes in an order that the store chooses: it is kept
  as the set of its elements.
\<close>

definition topics_of :: "db \<Rightarrow> string \<Rightarrow> topic_row set" where
  "topics_of d pid = set (filter (\<lambda>t. (pid, topic_id t) \<in> set (paperTopics d)) (topics d))"

text \<open>
  The constraints the store enforces: primary keys and unique columns have no
  duplicates, and the join rows and saved rows refer to rows that exist.
\<close>

definition store_ok :: "db \<Rightarrow> bool" where
  "store_ok d =
     (distinct (map user_id (users d)) \<and>
      distinct (map user_email (users d)) \<and>
      distinct (map paper_id (papers d)) \<and>
      distinct (map (\<lambda>s. (userId s, paperId s)) (savedPapers d)) \<and>
      distinct (map topic_id (topics d)) \<and>
      distinct (map topic_name (topics d)) \<and>
      distinct (paperTopics d) \<and>
      list_all (\<lambda>s. userId s \<in> set (map user_id (users d)) \<and>
                     paperId s \<in> set (map paper_id (papers d))) (savedPapers d) \<and>
      list_all (\<lambda>e. fst e \<in> set (map paper_id (papers d)) \<and>
                     snd e \<in> set (map topic_id (topics d))) (paperTopics d))"

section \<open>The world outside\<close>

text \<open>The signed-in user, as the authentication provider reports it.\<close>

record clerk_user =
  emailAddresses :: "string list"
  firstName :: "string option"
  lastName :: "string option"
  username :: "string option"

text \<open>The interface \<^verbatim>\<open>ArxivPaper\<close>.\<close>

record arxiv_paper =
  ap_id :: string
  ap_title :: string
  ap_summary :: string
  ap_authors :: "string list"
  ap_published :: string
  ap_link :: string
  ap_pdfLink :: "string option"

text \<open>An entry of the parsed feed, and one of its links with its attributes.\<close>

record feed_link =
  link_title :: "string option"
  link_href :: string

record feed_entry =
  fe_id :: string
  fe_title :: string
  fe_summary :: string
  fe_authors :: "string list"
  fe_published :: string
  fe_links :: "feed_link list"

record search_params =
  search_query :: string
  start :: nat
  max_results :: nat
  sortBy :: string
  sortOrder :: string

text \<open>
  The functions of the JavaScript runtime that the source calls and that are not
  modelled further: \<^verbatim>\<open>JSON.parse\<close> (\<open>None\<close> when it throws a SyntaxError),
  \<^verbatim>\<open>JSON.stringify\<close>, \<^verbatim>\<open>new Date(s)\<close> (\<open>None\<close> for an Invalid Date) and
  \<^verbatim>\<open>toISOString\<close>.
\<close>

record runtime =
  JSON_parse :: "string \<Rightarrow> json option"
  JSON_stringify :: "json \<Rightarrow> string"
  new_Date :: "string \<Rightarrow> timestamp option"
  toISOString :: "timestamp \<Rightarrow> string"

text \<open>
  The services a call reaches: the signed-in user, the model key of the process
  environment, the download of a PDF (\<^verbatim>\<open>axios.get\<close> with \<^verbatim>\<open>arraybuffer\<close>), the
  generative model (the text of its response to the fixed prompt and the PDF, or its
  failure), the remote search endpoint (by parameters and number of requests already
  sent) and the feed parser (\<open>None\<close> when parsing or the mapping of an entry throws).
\<close>

record env =
  currentUser :: "clerk_user option"
  GEMINI_API_KEY :: "string option"
  axios_get_pdf :: "string \<Rightarrow> error + string"
  generateContent :: "string \<Rightarrow> error + string"
  arxiv_api :: "search_params \<Rightarrow> nat \<Rightarrow> string http_result"
  parseStringPromise :: "string \<Rightarrow> feed_entry list option"

section \<open>searchArxiv (src/lib/arxiv.ts)\<close>

definition entry_to_paper :: "feed_entry \<Rightarrow> arxiv_paper" where
  "entry_to_paper e =
     \<lparr>ap_id = getCleanId (fe_id e),
      ap_title = collapse_spaces (trim (fe_title e)),
      ap_summary = collapse_spaces (trim (fe_summary e)),
      ap_authors = fe_authors e,
      ap_published = fe_published e,
      ap_link = fe_id e,
      ap_pdfLink = map_option link_href (find (\<lambda>l. link_title l = Some ''pdf'') (fe_links e))\<rparr>"

text \<open>Any failure, of the request or of the parsing, is caught and gives the empty list.\<close>

definition searchArxiv ::
  "env \<Rightarrow> string \<Rightarrow> nat \<Rightarrow> nat \<Rightarrow> string \<Rightarrow> string \<Rightarrow> arxiv_paper list" where
  "searchArxiv e query maxResults start_at sort_by sort_order =
     (case fst (fetchWithRetry_default
                  (arxiv_api e \<lparr>search_query = query, start = start_at,
                                max_results = maxResults, sortBy = sort_by,
                                sortOrder = sort_order\<rparr>)) of
        HttpError st \<Rightarrow> []
      | Response data \<Rightarrow>
          (case parseStringPromise e data of
             None \<Rightarrow> []
           | Some entries \<Rightarrow> map entry_to_paper entries))"

section \<open>analyzePdfBuffer (src/lib/analyzer.ts)\<close>

text \<open>The fallback for a response that is not JSON.\<close>

definition fallback :: "string \<Rightarrow> json" where
  "fallback text =
     JObj [(''summary'', JStr text), (''institution'', JStr []), (''topics'', JArr [])]"

text \<open>
  The key is checked before the \<^verbatim>\<open>try\<close>; every failure inside it (the model call,
  reading the response) is rethrown wrapped; a SyntaxError of \<^verbatim>\<open>JSON.parse\<close> is
  caught by the inner \<^verbatim>\<open>try\<close>.
\<close>

definition analyzePdfBuffer :: "runtime \<Rightarrow> env \<Rightarrow> string \<Rightarrow> error + json" where
  "analyzePdfBuffer js e buffer =
     (if \<not> truthy (GEMINI_API_KEY e) then Inl MissingApiKey
      else (case generateContent e buffer of
              Inl err \<Rightarrow> Inl (AnalyzeFailed err)
            | Inr text \<Rightarrow>
                (case JSON_parse js (trim (strip_fences text)) of
                   Some v \<Rightarrow> Inr v
                 | None \<Rightarrow> Inr (fallback text))))"

section \<open>The server actions (app/actions.ts)\<close>

subsection \<open>getCurrentUser\<close>

definition display_name :: "clerk_user \<Rightarrow> string" where
  "display_name cu =
     (let full = trim (template (firstName cu) @ '' '' @ template (lastName cu))
      in if full \<noteq> [] then full else or_else (username cu) ''User'')"

text \<open>
  Throws when nobody is signed in or the user has no email address; otherwise the
  User row of that address is updated with the display name, or created.
\<close>

definition getCurrentUser :: "env \<Rightarrow> db \<Rightarrow> (error + user_row) \<times> db" where
  "getCurrentUser e d =
     (case currentUser e of
        None \<Rightarrow> (Inl Unauthorized, d)
      | Some cu \<Rightarrow>
          (case emailAddresses cu of
             [] \<Rightarrow> (Inl NoEmail, d)
           | address # others \<Rightarrow>
               if address = [] then (Inl NoEmail, d)
               else (case find (\<lambda>u. user_email u = address) (users d) of
                       Some u \<Rightarrow>
                         (Inr (u\<lparr>user_name := display_name cu\<rparr>),
                          d\<lparr>users := map (\<lambda>x. if user_email x = address
                                                then x\<lparr>user_name := display_name cu\<rparr>
                                                else x) (users d)\<rparr>)
                     | None \<Rightarrow>
                         (let u = \<lparr>user_id = fresh_id (map user_id (users d)),
                                   user_email = address,
                                   user_name = display_name cu\<rparr>
                          in (Inr u, d\<lparr>users := users d @ [u]\<rparr>)))))"

subsection \<open>savePaperAction\<close>

definition authors_json :: "runtime \<Rightarrow> string list \<Rightarrow> string" where
  "authors_json js names = JSON_stringify js (JArr (map JStr names))"

text \<open>
  The \<^verbatim>\<open>update\<close> branch of the Paper upsert. \<^verbatim>\<open>filePath: paper.pdfLink\<close> writes
  nothing when the record has no PDF link (an undefined value leaves the column as
  it is).
\<close>

definition refreshed ::
  "runtime \<Rightarrow> timestamp \<Rightarrow> timestamp \<Rightarrow> arxiv_paper \<Rightarrow> paper_row \<Rightarrow> paper_row" where
  "refreshed js now published p r =
     r\<lparr>title := ap_title p,
       authors := authors_json js (ap_authors p),
       abstract := Some (ap_summary p),
       url := Some (ap_link p),
       publishedDate := Some published,
       filePath := (case ap_pdfLink p of None \<Rightarrow> filePath r | Some l \<Rightarrow> Some l),
       updatedAt := now\<rparr>"

text \<open>The \<^verbatim>\<open>create\<close> branch.\<close>

definition created :: "runtime \<Rightarrow> timestamp \<Rightarrow> timestamp \<Rightarrow> arxiv_paper \<Rightarrow> paper_row" where
  "created js now published p =
     \<lparr>paper_id = ap_id p,
      title = ap_title p,
      authors = authors_json js (ap_authors p),
      abstract = Some (ap_summary p),
      summary = None,
      institution = None,
      url = Some (ap_link p),
      filePath = ap_pdfLink p,
      publishedDate = Some published,
      createdAt = now,
      updatedAt = now\<rparr>"

definition upsert_paper :: "runtime \<Rightarrow> timestamp \<Rightarrow> timestamp \<Rightarrow> arxiv_paper \<Rightarrow> db \<Rightarrow> db" where
  "upsert_paper js now published p d =
     (case find_paper d (ap_id p) of
        Some existing \<Rightarrow>
          d\<lparr>papers := map (\<lambda>r. if paper_id r = ap_id p then refreshed js now published p r
                                else r) (papers d)\<rparr>
      | None \<Rightarrow> d\<lparr>papers := papers d @ [created js now published p]\<rparr>)"

text \<open>The SavedPaper upsert: \<^verbatim>\<open>update: {}\<close> when the pair is there, a new row otherwise.\<close>

definition upsert_saved :: "timestamp \<Rightarrow> nat \<Rightarrow> string \<Rightarrow> db \<Rightarrow> db" where
  "upsert_saved now uid pid d =
     (case find_saved d uid pid of
        Some existing \<Rightarrow> d
      | None \<Rightarrow>
          d\<lparr>savedPapers := savedPapers d @ [\<lparr>userId = uid, paperId = pid, savedAt = now\<rparr>]\<rparr>)"

text \<open>The unit of work that a save starts and does not await: the paper and its PDF link.\<close>

record task =
  task_paper :: string
  task_pdf :: string

text \<open>
  \<open>savePaperAction js e now p d\<close> is the action up to its return: what it throws, or
  the unit of work it has started (if the record has a PDF link), and the store it
  leaves. An Invalid Date as \<^verbatim>\<open>publishedDate\<close> is refused by the store's client.
\<close>

definition savePaperAction ::
  "runtime \<Rightarrow> env \<Rightarrow> timestamp \<Rightarrow> arxiv_paper \<Rightarrow> db \<Rightarrow> (error + task option) \<times> db" where
  "savePaperAction js e now p d =
     (case getCurrentUser e d of
        (Inl err, d1) \<Rightarrow> (Inl err, d1)
      | (Inr user, d1) \<Rightarrow>
          (case new_Date js (ap_published p) of
             None \<Rightarrow> (Inl ValidationError, d1)
           | Some published \<Rightarrow>
               (let d2 = upsert_paper js now published p d1;
                    d3 = upsert_saved now (user_id user) (ap_id p) d2
                in (Inr (case ap_pdfLink p of
                           None \<Rightarrow> None
                         | Some l \<Rightarrow> if l = [] then None
                                     else Some \<lparr>task_paper = ap_id p, task_pdf = l\<rparr>),
                    d3))))"

subsection \<open>Writing the analysis to the Paper\<close>

text \<open>
  \<^verbatim>\<open>result.topics?.map(...) || []\<close>: no topics when the member is undefined or null,
  its elements when it is an array, a TypeError when it is anything else (which has
  no \<^verbatim>\<open>map\<close> to call).
\<close>

definition topics_arg :: "json \<Rightarrow> error + json list" where
  "topics_arg result =
     (case js_get result ''topics'' of
        Inl err \<Rightarrow> Inl err
      | Inr None \<Rightarrow> Inr []
      | Inr (Some JNull) \<Rightarrow> Inr []
      | Inr (Some (JArr xs)) \<Rightarrow> Inr xs
      | Inr (Some other) \<Rightarrow> Inl TypeError)"

text \<open>
  What the store's client makes of a value given for a nullable string column:
  undefined writes nothing, null and a string are written, anything else is refused.
\<close>

datatype col_write = Keep | SetTo "string option"

fun column_write :: "json option \<Rightarrow> error + col_write" where
  "column_write None = Inr Keep"
| "column_write (Some JNull) = Inr (SetTo None)"
| "column_write (Some (JStr v)) = Inr (SetTo (Some v))"
| "column_write (Some other) = Inl ValidationError"

fun apply_write :: "col_write \<Rightarrow> string option \<Rightarrow> string option" where
  "apply_write Keep old = old"
| "apply_write (SetTo v) old = v"

text \<open>A topic name must be a string.\<close>

fun topic_names :: "json list \<Rightarrow> error + string list" where
  "topic_names [] = Inr []"
| "topic_names (JStr n # others) =
     (case topic_names others of Inl err \<Rightarrow> Inl err | Inr ns \<Rightarrow> Inr (n # ns))"
| "topic_names (other # others) = Inl ValidationError"

text \<open>\<^verbatim>\<open>connect\<close>: the join row is added unless it is there.\<close>

definition connect :: "string \<Rightarrow> nat \<Rightarrow> db \<Rightarrow> db" where
  "connect pid tid d =
     (if (pid, tid) \<in> set (paperTopics d) then d
      else d\<lparr>paperTopics := paperTopics d @ [(pid, tid)]\<rparr>)"

text \<open>The Topic upsert by name, with \<^verbatim>\<open>update: {}\<close>: the row found, or a new one.\<close>

definition upsert_topic :: "string \<Rightarrow> db \<Rightarrow> topic_row \<times> db" where
  "upsert_topic n d =
     (case find_topic d n of
        Some t \<Rightarrow> (t, d)
      | None \<Rightarrow>
          (let t = \<lparr>topic_id = fresh_id (map topic_id (topics d)), topic_name = n\<rparr>
           in (t, d\<lparr>topics := topics d @ [t]\<rparr>)))"

text \<open>\<^verbatim>\<open>connectOrCreate\<close> of one topic name.\<close>

definition connectOrCreate :: "string \<Rightarrow> string \<Rightarrow> db \<Rightarrow> db" where
  "connectOrCreate pid n d =
     (case upsert_topic n d of (t, d1) \<Rightarrow> connect pid (topic_id t) d1)"

text \<open>The columns of the update; \<open>updatedAt\<close> is stamped when a column is written.\<close>

definition enriched :: "timestamp \<Rightarrow> col_write \<Rightarrow> col_write \<Rightarrow> paper_row \<Rightarrow> paper_row" where
  "enriched now ws wi r =
     r\<lparr>summary := apply_write ws (summary r),
       institution := apply_write wi (institution r),
       updatedAt := (if ws = Keep \<and> wi = Keep then updatedAt r else now)\<rparr>"

text \<open>
  The \<^verbatim>\<open>prisma.paper.update\<close> that the background unit and the regeneration share:
  the arguments are built from the analysis (a TypeError when it is null), checked by
  the store's client, and written in one transaction: the two columns, then one
  \<^verbatim>\<open>connectOrCreate\<close> for each topic. A failure writes nothing.
\<close>

definition update_with_analysis :: "timestamp \<Rightarrow> string \<Rightarrow> json \<Rightarrow> db \<Rightarrow> error + db" where
  "update_with_analysis now pid result d =
     (case js_get result ''summary'' of
        Inl err \<Rightarrow> Inl err
      | Inr s \<Rightarrow>
     (case js_get result ''institution'' of
        Inl err \<Rightarrow> Inl err
      | Inr i \<Rightarrow>
     (case topics_arg result of
        Inl err \<Rightarrow> Inl err
      | Inr ts \<Rightarrow>
     (case column_write s of
        Inl err \<Rightarrow> Inl err
      | Inr ws \<Rightarrow>
     (case column_write i of
        Inl err \<Rightarrow> Inl err
      | Inr wi \<Rightarrow>
     (case topic_names ts of
        Inl err \<Rightarrow> Inl err
      | Inr ns \<Rightarrow>
     (case find_paper d pid of
        None \<Rightarrow> Inl RecordNotFound
      | Some existing \<Rightarrow>
          Inr (fold (connectOrCreate pid) ns
                 (d\<lparr>papers := map (\<lambda>r. if paper_id r = pid then enriched now ws wi r else r)
                                  (papers d)\<rparr>)))))))))"

text \<open>\<^verbatim>\<open>url.replace(/^http:\/\//, 'https://')\<close>\<close>

definition secure_url :: "string \<Rightarrow> string" where
  "secure_url u = replace_prefix ''http://'' ''https://'' u"

text \<open>Download, analysis and update, in this order; the first failure ends it.\<close>

definition analyze_and_update ::
  "runtime \<Rightarrow> env \<Rightarrow> timestamp \<Rightarrow> string \<Rightarrow> string \<Rightarrow> db \<Rightarrow> error + db" where
  "analyze_and_update js e now pid pdf d =
     (case axios_get_pdf e (secure_url pdf) of
        Inl err \<Rightarrow> Inl err
      | Inr data \<Rightarrow>
          (case analyzePdfBuffer js e data of
             Inl err \<Rightarrow> Inl err
           | Inr result \<Rightarrow> update_with_analysis now pid result d))"

subsection \<open>The background unit of savePaperAction\<close>

datatype log = AnalysisCompleted string | AnalysisFailed string error

text \<open>
  The body of the asynchronous closure, run at some time \<open>now\<close> after the save has
  returned, on the store as it is then: the \<^verbatim>\<open>try\<close> block, and the \<^verbatim>\<open>catch\<close> that
  logs. It returns the store it leaves and the line it logs; it throws nothing.
\<close>

definition background_analysis ::
  "runtime \<Rightarrow> env \<Rightarrow> timestamp \<Rightarrow> task \<Rightarrow> db \<Rightarrow> db \<times> log" where
  "background_analysis js e now t d =
     (case analyze_and_update js e now (task_paper t) (task_pdf t) d of
        Inl err \<Rightarrow> (d, AnalysisFailed (task_paper t) err)
      | Inr d1 \<Rightarrow> (d1, AnalysisCompleted (task_paper t)))"

text \<open>
  A save with its background unit run to its end: what the caller of the save gets,
  what the unit logs (if one was started), and the store afterwards.
\<close>

definition save_and_settle ::
  "runtime \<Rightarrow> env \<Rightarrow> timestamp \<Rightarrow> timestamp \<Rightarrow> arxiv_paper \<Rightarrow> db \<Rightarrow>
   (error + task option) \<times> log option \<times> db" where
  "save_and_settle js e now later p d =
     (case savePaperAction js e now p d of
        (Inl err, d1) \<Rightarrow> (Inl err, None, d1)
      | (Inr None, d1) \<Rightarrow> (Inr None, None, d1)
      | (Inr (Some t), d1) \<Rightarrow>
          (case background_analysis js e later t d1 of
             (d2, line) \<Rightarrow> (Inr (Some t), Some line, d2)))"

subsection \<open>regenerateSummaryAction\<close>

text \<open>The \<^verbatim>\<open>error\<close> of a failure: a text of the source, or the message of what was caught.\<close>

datatype message = Text string | MessageOf error

record regen_result =
  success :: bool
  error_msg :: "message option"

definition regenerateSummaryAction ::
  "runtime \<Rightarrow> env \<Rightarrow> timestamp \<Rightarrow> string \<Rightarrow> db \<Rightarrow> regen_result \<times> db" where
  "regenerateSummaryAction js e now pid d =
     (case find_paper d pid of
        None \<Rightarrow> (\<lparr>success = False, error_msg = Some (Text ''Paper not found'')\<rparr>, d)
      | Some paper \<Rightarrow>
          if \<not> truthy (filePath paper)
          then (\<lparr>success = False,
                 error_msg = Some (Text ''No PDF available for this paper'')\<rparr>, d)
          else (case analyze_and_update js e now pid (or_else (filePath paper) []) d of
                  Inl err \<Rightarrow> (\<lparr>success = False, error_msg = Some (MessageOf err)\<rparr>, d)
                | Inr d1 \<Rightarrow> (\<lparr>success = True, error_msg = None\<rparr>, d1)))"

subsection \<open>getPaperByIdAction\<close>

text \<open>
  What the action returns when it does not return null: the row's columns (for a saved
  paper), with the members the action sets.
\<close>

record paper_view =
  v_id :: string
  v_title :: string
  v_authors :: json
  v_abstract :: string
  v_summary :: "string option"
  v_institution :: "string option"
  v_published :: string
  v_link :: string
  v_pdfLink :: "string option"
  v_topics :: "topic_row set option"
  v_isSaved :: bool
  v_row :: "paper_row option"

definition saved_view :: "runtime \<Rightarrow> paper_row \<Rightarrow> topic_row set \<Rightarrow> json \<Rightarrow> paper_view" where
  "saved_view js sp ts parsed =
     \<lparr>v_id = paper_id sp,
      v_title = title sp,
      v_authors = parsed,
      v_abstract = or_else (abstract sp) (or_else (summary sp) []),
      v_summary = summary sp,
      v_institution = institution sp,
      v_published = (case publishedDate sp of None \<Rightarrow> [] | Some t \<Rightarrow> toISOString js t),
      v_link = or_else (url sp) [],
      v_pdfLink = Some (or_else (filePath sp) []),
      v_topics = Some ts,
      v_isSaved = True,
      v_row = Some sp\<rparr>"

definition remote_view :: "arxiv_paper \<Rightarrow> paper_view" where
  "remote_view p =
     \<lparr>v_id = ap_id p,
      v_title = ap_title p,
      v_authors = JArr (map JStr (ap_authors p)),
      v_abstract = ap_summary p,
      v_summary = None,
      v_institution = None,
      v_published = ap_published p,
      v_link = ap_link p,
      v_pdfLink = ap_pdfLink p,
      v_topics = None,
      v_isSaved = False,
      v_row = None\<rparr>"

definition encoded_abs :: string where
  "encoded_abs = ''arxiv.org%2Fabs%2F''"

text \<open>
  The identifier that is searched for: of an identifier that contains the encoded
  \<^verbatim>\<open>arxiv.org/abs/\<close>, the piece after its first occurrence.
\<close>

definition arxiv_id_of :: "string \<Rightarrow> string" where
  "arxiv_id_of ident =
     (if js_includes ident encoded_abs
      then (case split_second ident encoded_abs of
              Some piece \<Rightarrow> piece
            | None \<Rightarrow> ident)
      else ident)"

text \<open>The part after the database lookup: a remote search for the identifier.\<close>

definition remote_lookup :: "env \<Rightarrow> string \<Rightarrow> paper_view option" where
  "remote_lookup e ident =
     (case searchArxiv e (arxiv_id_of ident) 1 0 ''submittedDate'' ''descending'' of
        [] \<Rightarrow> None
      | paper # others \<Rightarrow> Some (remote_view paper))"

definition getPaperByIdAction ::
  "runtime \<Rightarrow> env \<Rightarrow> string \<Rightarrow> db \<Rightarrow> (error + paper_view option) \<times> db" where
  "getPaperByIdAction js e ident d =
     (case getCurrentUser e d of
        (Inl err, d1) \<Rightarrow> (Inl err, d1)
      | (Inr user, d1) \<Rightarrow>
          (case find_saved d1 (user_id user) ident of
             Some entry \<Rightarrow>
               (case find_paper d1 ident of
                  None \<Rightarrow> (Inl InconsistentResult, d1)
                | Some sp \<Rightarrow>
                    (case JSON_parse js (authors sp) of
                       None \<Rightarrow> (Inl SyntaxError, d1)
                     | Some parsed \<Rightarrow>
                         (Inr (Some (saved_view js sp (topics_of d1 ident) parsed)), d1)))
           | None \<Rightarrow> (Inr (remote_lookup e ident), d1)))"

subsection \<open>getSavedPapersAction\<close>

record library_entry =
  l_paper :: paper_row
  l_topics :: "topic_row set"
  l_authors :: json
  l_published :: string
  l_link :: string
  l_pdfLink :: string

fun library_entries :: "runtime \<Rightarrow> db \<Rightarrow> saved_row list \<Rightarrow> error + library_entry list" where
  "library_entries js d [] = Inr []"
| "library_entries js d (entry # others) =
     (case find_paper d (paperId entry) of
        None \<Rightarrow> Inl InconsistentResult
      | Some p \<Rightarrow>
          (case JSON_parse js (authors p) of
             None \<Rightarrow> Inl SyntaxError
           | Some parsed \<Rightarrow>
               (case library_entries js d others of
                  Inl err \<Rightarrow> Inl err
                | Inr rest \<Rightarrow>
                    Inr (\<lparr>l_paper = p,
                          l_topics = topics_of d (paperId entry),
                          l_authors = parsed,
                          l_published = (case publishedDate p of
                                           None \<Rightarrow> [] | Some t \<Rightarrow> toISOString js t),
                          l_link = or_else (url p) [],
                          l_pdfLink = or_else (filePath p) []\<rparr> # rest))))"

text \<open>
  The saved rows of the user, latest first. Rows saved at the same instant come in an
  order that the store chooses; the model takes the order of their insertion, and
  nothing below depends on it.
\<close>

definition getSavedPapersAction ::
  "runtime \<Rightarrow> env \<Rightarrow> db \<Rightarrow> (error + library_entry list) \<times> db" where
  "getSavedPapersAction js e d =
     (case getCurrentUser e d of
        (Inl err, d1) \<Rightarrow> (Inl err, d1)
      | (Inr user, d1) \<Rightarrow>
          (library_entries js d1
             (sort_key (\<lambda>s. - savedAt s)
                (filter (\<lambda>s. userId s = user_id user) (savedPapers d1))), d1))"

subsection \<open>Topics by hand, and removal from the library\<close>

text \<open>
  Two writes, one after the other: the topic is there even when the paper is not and
  the second write throws.
\<close>

definition addTopicToPaperAction :: "string \<Rightarrow> string \<Rightarrow> db \<Rightarrow> (error + unit) \<times> db" where
  "addTopicToPaperAction pid n d =
     (case upsert_topic n d of
        (t, d1) \<Rightarrow>
          (case find_paper d1 pid of
             None \<Rightarrow> (Inl RecordNotFound, d1)
           | Some existing \<Rightarrow> (Inr (), connect pid (topic_id t) d1)))"

definition removeTopicFromPaperAction :: "string \<Rightarrow> nat \<Rightarrow> db \<Rightarrow> (error + unit) \<times> db" where
  "removeTopicFromPaperAction pid tid d =
     (case find_paper d pid of
        None \<Rightarrow> (Inl RecordNotFound, d)
      | Some existing \<Rightarrow> (Inr (), d\<lparr>paperTopics := removeAll (pid, tid) (paperTopics d)\<rparr>))"

definition deletePaperAction :: "env \<Rightarrow> string \<Rightarrow> db \<Rightarrow> (error + unit) \<times> db" where
  "deletePaperAction e pid d =
     (case getCurrentUser e d of
        (Inl err, d1) \<Rightarrow> (Inl err, d1)
      | (Inr user, d1) \<Rightarrow>
          (case find_saved d1 (user_id user) pid of
             None \<Rightarrow> (Inl RecordNotFound, d1)
           | Some entry \<Rightarrow>
               (Inr (), d1\<lparr>savedPapers :=
                              filter (\<lambda>s. \<not> (userId s = user_id user \<and> paperId s = pid))
                                (savedPapers d1)\<rparr>)))"

subsection \<open>Sequences of calls\<close>

text \<open>
  One step of the system: a call of an action by some user in some state of the world,
  or the run of a background unit that a save has started.
\<close>

datatype action =
    Save env timestamp arxiv_paper
  | Background env timestamp task
  | Regenerate env timestamp string
  | AddTopic string string
  | RemoveTopic string nat
  | Delete env string
  | GetPaper env string
  | GetSaved env

fun perform :: "runtime \<Rightarrow> action \<Rightarrow> db \<Rightarrow> db" where
  "perform js (Save e now p) d = snd (savePaperAction js e now p d)"
| "perform js (Background e now t) d = fst (background_analysis js e now t d)"
| "perform js (Regenerate e now pid) d = snd (regenerateSummaryAction js e now pid d)"
| "perform js (AddTopic pid n) d = snd (addTopicToPaperAction pid n d)"
| "perform js (RemoveTopic pid tid) d = snd (removeTopicFromPaperAction pid tid d)"
| "perform js (Delete e pid) d = snd (deletePaperAction e pid d)"
| "perform js (GetPaper e ident) d = snd (getPaperByIdAction js e ident d)"
| "perform js (GetSaved e) d = snd (getSavedPapersAction js e d)"

definition run :: "runtime \<Rightarrow> action list \<Rightarrow> db \<Rightarrow> db" where
  "run js acts d = fold (perform js) acts d"

subsection \<open>What the reads rely on\<close>


section \<open>A scenario: the paper 2106.09685v2\<close>

text \<open>
  The values the closed theorems below are evaluated at. The runtime is given by the
  finite tables of what its functions return on the texts that occur in the scenario.
\<close>

definition quoted :: "string \<Rightarrow> string" where
  "quoted s = CHR 0x22 # s @ [CHR 0x22]"

definition lora_authors :: "string list" where
  "lora_authors = [''Edward Hu'', ''Yelong Shen'']"

definition lora_authors_text :: string where
  "lora_authors_text = ''['' @ quoted ''Edward Hu'' @ '','' @ quoted ''Yelong Shen'' @ '']''"

definition lora_analysis :: json where
  "lora_analysis =
     JObj [(''summary'', JStr ''S''), (''institution'', JStr ''I''),
           (''topics'', JArr [JStr ''Agent'', JStr ''Large Language Models'',
                              JStr ''Model Architecture''])]"

definition lora_analysis_text :: string where
  "lora_analysis_text = ''{analysis of 2106.09685v2}''"

definition chen_authors_text :: string where
  "chen_authors_text = ''['' @ quoted ''Yukang Chen'' @ '']''"

definition demo_js :: runtime where
  "demo_js =
     \<lparr>JSON_parse = map_of [(lora_authors_text, JArr (map JStr lora_authors)),
                            (chen_authors_text, JArr [JStr ''Yukang Chen'']),
                            (lora_analysis_text, lora_analysis),
                            (''null'', JNull)],
      JSON_stringify = (\<lambda>v. if v = JArr (map JStr lora_authors) then lora_authors_text
                              else if v = JArr [JStr ''Yukang Chen''] then chen_authors_text
                              else ''?''),
      new_Date = map_of [(''2021-06-17T00:00:00.000Z'', 1623888000000),
                          (''2021-10-16T00:00:00.000Z'', 1634342400000)],
      toISOString = (\<lambda>t. if t = 1623888000000 then ''2021-06-17T00:00:00.000Z''
                           else if t = 1634342400000 then ''2021-10-16T00:00:00.000Z''
                           else ''?'')\<rparr>"

definition demo_user :: clerk_user where
  "demo_user =
     \<lparr>emailAddresses = [''demo@infrared-zenith.com''], firstName = Some ''Demo'',
      lastName = Some ''User'', username = None\<rparr>"

definition lora_entry :: feed_entry where
  "lora_entry =
     \<lparr>fe_id = ''http://arxiv.org/abs/2106.09685v2'',
      fe_title = ''LoRA: Low-Rank Adaptation of Large Language Models'',
      fe_summary = ''We propose LoRA...'',
      fe_authors = lora_authors,
      fe_published = ''2021-06-17T00:00:00.000Z'',
      fe_links = [\<lparr>link_title = None, link_href = ''http://arxiv.org/abs/2106.09685v2''\<rparr>,
                  \<lparr>link_title = Some ''pdf'',
                   link_href = ''http://arxiv.org/pdf/2106.09685v2''\<rparr>]\<rparr>"

text \<open>
  A world in which the search endpoint answers with the one entry, the PDF downloads,
  and the model answers with \<open>reply\<close>.
\<close>

definition demo_env :: "string \<Rightarrow> env" where
  "demo_env reply =
     \<lparr>currentUser = Some demo_user,
      GEMINI_API_KEY = Some ''key'',
      axios_get_pdf = (\<lambda>u. Inr ''%PDF''),
      generateContent = (\<lambda>buffer. Inr reply),
      arxiv_api = (\<lambda>params k. Response ''<feed>''),
      parseStringPromise = (\<lambda>data. Some [lora_entry])\<rparr>"

text \<open>The same world with the PDF host unreachable.\<close>

definition offline_env :: env where
  "offline_env = (demo_env lora_analysis_text)
     \<lparr>axios_get_pdf := (\<lambda>u. Inl (TransportError ''connect ETIMEDOUT''))\<rparr>"

text \<open>The same world without the model key.\<close>

definition nokey_env :: env where
  "nokey_env = (demo_env lora_analysis_text)\<lparr>GEMINI_API_KEY := None\<rparr>"

definition lora :: arxiv_paper where
  "lora = entry_to_paper lora_entry"

text \<open>The store after the demo user has saved the paper at time 1000.\<close>

definition saved_db :: db where
  "saved_db = snd (savePaperAction demo_js (demo_env lora_analysis_text) 1000 lora empty_db)"

text \<open>The same store after the background unit of that save has run at time 1500.\<close>

definition enriched_db :: db where
  "enriched_db =
     fst (background_analysis demo_js (demo_env lora_analysis_text) 1500
            \<lparr>task_paper = ''2106.09685v2'', task_pdf = ''http://arxiv.org/pdf/2106.09685v2''\<rparr>
            saved_db)"

text \<open>That store with the PDF link of the paper removed.\<close>

definition no_pdf_db :: db where
  "no_pdf_db = enriched_db\<lparr>papers := map (\<lambda>r. r\<lparr>filePath := None\<rparr>) (papers enriched_db)\<rparr>"

text \<open>A second paper, without a PDF link, and the store after it has been saved too.\<close>

definition longlora :: arxiv_paper where
  "longlora =
     \<lparr>ap_id = ''2309.12307v3'',
      ap_title = ''LongLoRA: Efficient Fine-tuning of Long-Context Large Language Models'',
      ap_summary = ''We present LongLoRA...'',
      ap_authors = [''Yukang Chen''],
      ap_published = ''2021-06-17T00:00:00.000Z'',
      ap_link = ''http://arxiv.org/abs/2309.12307v3'',
      ap_pdfLink = None\<rparr>"

definition two_papers_db :: db where
  "two_papers_db = snd (savePaperAction demo_js (demo_env []) 1700 longlora enriched_db)"

text \<open>What happens after the save in the scenario, and the task that the save started.\<close>

definition lora_task :: task where
  "lora_task = \<lparr>task_paper = ''2106.09685v2'', task_pdf = ''http://arxiv.org/pdf/2106.09685v2''\<rparr>"


text \<open>
  The store of the two papers after the first, and then also the second, has been
  updated with the analysis of the scenario.
\<close>

definition once_merged_db :: db where
  "once_merged_db =
     (case update_with_analysis 2000 ''2106.09685v2'' lora_analysis two_papers_db of
        Inl err \<Rightarrow> two_papers_db
      | Inr d \<Rightarrow> d)"

definition twice_merged_db :: db where
  "twice_merged_db =
     (case update_with_analysis 2100 ''2309.12307v3'' lora_analysis once_merged_db of
        Inl err \<Rightarrow> once_merged_db
      | Inr d \<Rightarrow> d)"

text \<open>
  The same paper as a record with other values in every field, as a later search
  might give it, and as a record whose published date is no date.
\<close>

definition lora_revised :: arxiv_paper where
  "lora_revised =
     \<lparr>ap_id = ''2106.09685v2'',
      ap_title = ''LoRA (revised)'',
      ap_summary = ''Revised abstract'',
      ap_authors = [''Yukang Chen''],
      ap_published = ''2021-10-16T00:00:00.000Z'',
      ap_link = ''https://arxiv.org/abs/2106.09685v2'',
      ap_pdfLink = Some ''https://arxiv.org/pdf/2106.09685v2''\<rparr>"

definition undated :: arxiv_paper where
  "undated = lora\<lparr>ap_published := ''not a date''\<rparr>"

text \<open>The world in which the signed-in user has no email address.\<close>

definition no_email_env :: env where
  "no_email_env = (demo_env [])\<lparr>currentUser := Some (demo_user\<lparr>emailAddresses := []\<rparr>)\<rparr>"

text \<open>The store of the enriched paper with an authors column that is not JSON.\<close>

definition broken_db :: db where
  "broken_db = enriched_db\<lparr>papers := map (\<lambda>r. r\<lparr>authors := ''Edward Hu''\<rparr>) (papers enriched_db)\<rparr>"

text \<open>The reply of the model between a no-break space (U+00A0) and a U+FEFF.\<close>

definition wrapped_reply :: string where
  "wrapped_reply =
     [CHR 0xC2, CHR 0xA0] @ lora_analysis_text @ [CHR 0x0A, CHR 0xEF, CHR 0xBB, CHR 0xBF]"




section \<open>Theorems\<close>

text \<open>
  C3. When every attempt is answered with status 429, the client sends a request,
  waits 1000 ms, sends again, waits 2000 ms, sends again, waits 4000 ms, and sends a
  fourth and last request, whose rate-limit error it surfaces: 3 retries, 4 requests.
  An error whose status is not 429 (or that has no response) is surfaced at once,
  with no wait and no further request, whatever retries are left.
\<close>

theorem fetchWithRetry_rate_limit:
  "((\<forall>k. remote k = HttpError (Some 429)) \<longrightarrow>
      fetchWithRetry_default remote =
        (HttpError (Some 429),
         [Request, Sleep 1000, Request, Sleep 2000, Request, Sleep 4000, Request]) \<and>
      requests (snd (fetchWithRetry_default remote)) = 4) \<and>
   (remote' k = HttpError st \<and> st \<noteq> Some 429 \<longrightarrow>
      fetchWithRetry remote' k retries backoff = (HttpError st, [Request]))"
proof (intro conjI impI)
  assume all: "\<forall>k. remote k = HttpError (Some 429)"
  have three: "(3::nat) = Suc (Suc (Suc 0))"
    by simp
  show run: "fetchWithRetry_default remote =
        (HttpError (Some 429),
         [Request, Sleep 1000, Request, Sleep 2000, Request, Sleep 4000, Request])"
    unfolding fetchWithRetry_default_def three by (simp add: all)
  show "requests (snd (fetchWithRetry_default remote)) = 4"
    by (simp add: run requests_def)
next
  assume other: "remote' k = HttpError st \<and> st \<noteq> Some 429"
  then show "fetchWithRetry remote' k retries backoff = (HttpError st, [Request])"
    by (cases retries) simp_all
qed

theorem fetchWithRetry_rate_limit_witness:
  "fetchWithRetry_default always_429 =
     (HttpError (Some 429),
      [Request, Sleep 1000, Request, Sleep 2000, Request, Sleep 4000, Request]) \<and>
   requests (snd (fetchWithRetry_default always_429)) = 4 \<and>
   fetchWithRetry server_error_once 0 3 1000 = (HttpError (Some 500), [Request])"
proof -
  have a: "\<forall>k. always_429 k = HttpError (Some 429)"
    by (simp add: always_429_def)
  have b: "server_error_once 0 = HttpError (Some 500) \<and> Some (500::nat) \<noteq> Some 429"
    by (simp add: server_error_once_def)
  from fetchWithRetry_rate_limit [of always_429 server_error_once 0 "Some 500" 3 1000] a b
  show ?thesis by blast
qed

lemma fold_max_upper: "(a::nat) \<le> fold max xs a \<and> (\<forall>x\<in>set xs. x \<le> fold max xs a)"
proof (induction xs arbitrary: a)
  case Nil
  then show ?case by simp
next
  case (Cons y ys)
  have step: "max y a \<le> fold max ys (max y a)" and rest: "\<forall>x\<in>set ys. x \<le> fold max ys (max y a)"
    using Cons.IH [of "max y a"] by simp_all
  from step have "a \<le> fold max ys (max y a)" and "y \<le> fold max ys (max y a)"
    by simp_all
  with rest show ?case by simp
qed

lemma fresh_id_new: "fresh_id ids \<notin> set ids"
  using fold_max_upper [of 0 ids] by (auto simp: fresh_id_def)

lemma getCurrentUser_frame:
  "getCurrentUser e d = (r, d1) \<Longrightarrow>
   papers d1 = papers d \<and> savedPapers d1 = savedPapers d \<and> topics d1 = topics d \<and>
   paperTopics d1 = paperTopics d"
  by (auto simp: getCurrentUser_def Let_def split: option.splits list.splits if_splits)

text \<open>
  C7. As stated the claim fails for the URL-encoded form: getCleanId removes the two
  literal prefixes and decodes nothing, so the encoded URL of 2106.09685v2 is returned
  as it is, and differs from what the bare identifier normalises to.
\<close>

theorem getCleanId_counter:
  "getCleanId ''http%3A%2F%2Farxiv.org%2Fabs%2F2106.09685v2'' =
     ''http%3A%2F%2Farxiv.org%2Fabs%2F2106.09685v2'' \<and>
   getCleanId ''http%3A%2F%2Farxiv.org%2Fabs%2F2106.09685v2'' \<noteq> getCleanId ''2106.09685v2''"
  by (simp add: getCleanId_def replace_prefix_def http_abs_def https_abs_def)

text \<open>
  C7, amended. For a bare identifier \<open>b\<close> (a string that does not itself start with
  one of the two URL prefixes), the bare form, the http URL and the https URL all
  normalise to \<open>b\<close>. An input that starts with neither prefix, such as a URL-encoded
  form, is returned unchanged.
\<close>

theorem getCleanId_forms:
  assumes "take (length http_abs) b \<noteq> http_abs" and "take (length https_abs) b \<noteq> https_abs"
  shows "getCleanId b = b \<and> getCleanId (http_abs @ b) = b \<and> getCleanId (https_abs @ b) = b"
proof -
  have "take (length http_abs) (https_abs @ b) \<noteq> http_abs"
    by (simp add: http_abs_def https_abs_def)
  then show ?thesis
    using assms by (simp add: getCleanId_def replace_prefix_def)
qed

theorem getCleanId_forms_witness:
  "getCleanId ''2106.09685v2'' = ''2106.09685v2'' \<and>
   getCleanId ''http://arxiv.org/abs/2106.09685v2'' = ''2106.09685v2'' \<and>
   getCleanId ''https://arxiv.org/abs/2106.09685v2'' = ''2106.09685v2''"
proof -
  have a: "take (length http_abs) ''2106.09685v2'' \<noteq> http_abs"
    by (simp add: http_abs_def)
  have b: "take (length https_abs) ''2106.09685v2'' \<noteq> https_abs"
    by (simp add: https_abs_def)
  show ?thesis
    using getCleanId_forms [OF a b] by (simp add: http_abs_def https_abs_def)
qed

text \<open>
  C4. When the key is configured and the model answers with a text whose content,
  fences stripped and white space trimmed (what the source hands to
  \<^verbatim>\<open>JSON.parse\<close>), is not JSON, the analysis is the object with the raw
  text as summary, an empty institution and no topics. The analysis throws exactly
  when the key is missing or the model call fails: never because of what the model
  wrote.
\<close>

theorem analyzePdfBuffer_fallback:
  "(truthy (GEMINI_API_KEY e) \<and> generateContent e buffer = Inr text \<and>
    JSON_parse js (trim (strip_fences text)) = None \<longrightarrow>
      analyzePdfBuffer js e buffer =
        Inr (JObj [(''summary'', JStr text), (''institution'', JStr []),
                   (''topics'', JArr [])])) \<and>
   ((\<exists>err. analyzePdfBuffer js e buffer = Inl err) \<longleftrightarrow>
      (\<not> truthy (GEMINI_API_KEY e) \<or> (\<exists>err. generateContent e buffer = Inl err)))"
  by (auto simp: analyzePdfBuffer_def fallback_def split: sum.splits option.splits)

theorem analyzePdfBuffer_fallback_witness:
  "analyzePdfBuffer demo_js (demo_env ''I cannot read this file.'') ''%PDF'' =
     Inr (JObj [(''summary'', JStr ''I cannot read this file.''), (''institution'', JStr []),
                (''topics'', JArr [])])"
proof -
  have "truthy (GEMINI_API_KEY (demo_env ''I cannot read this file.'')) \<and>
        generateContent (demo_env ''I cannot read this file.'') ''%PDF'' =
          Inr ''I cannot read this file.'' \<and>
        JSON_parse demo_js (trim (strip_fences ''I cannot read this file.'')) = None"
    by code_simp
  then show ?thesis
    using analyzePdfBuffer_fallback
      [of "demo_env ''I cannot read this file.''" "''%PDF''" "''I cannot read this file.''" demo_js]
    by blast
qed

text \<open>
  White space beyond ASCII is trimmed as the runtime trims it: a reply wrapped in a
  no-break space and a U+FEFF is parsed, and is not taken for malformed output.
\<close>

lemma trim_white_space:
  "trim ([CHR 0xC2, CHR 0xA0] @ '' {} '' @ [CHR 0x0A, CHR 0xEF, CHR 0xBB, CHR 0xBF]) = ''{}''"
  by code_simp

lemma analyzePdfBuffer_wrapped:
  "analyzePdfBuffer demo_js (demo_env wrapped_reply) ''%PDF'' = Inr lora_analysis"
  by code_simp

text \<open>
  C5. Regeneration of a paper that is not in the catalog fails with
  \<^verbatim>\<open>Paper not found\<close>, and of a paper whose PDF link is null or empty with
  \<^verbatim>\<open>No PDF available for this paper\<close>; in both cases the store, and so the summary
  and the institution of every paper, is left as it was.
\<close>

theorem regenerate_failures:
  "(find_paper d pid = None \<longrightarrow>
      regenerateSummaryAction js e now pid d =
        (\<lparr>success = False, error_msg = Some (Text ''Paper not found'')\<rparr>, d)) \<and>
   (find_paper d pid = Some paper \<and> (filePath paper = None \<or> filePath paper = Some []) \<longrightarrow>
      regenerateSummaryAction js e now pid d =
        (\<lparr>success = False, error_msg = Some (Text ''No PDF available for this paper'')\<rparr>, d))"
  by (auto simp: regenerateSummaryAction_def truthy_def)

lemma find_map_preserve:
  "(\<And>x. P (f x) = P x) \<Longrightarrow> find P (map f xs) = map_option f (find P xs)"
  by (induction xs) simp_all

lemma find_append_split:
  "find P (xs @ ys) = (case find P xs of Some x \<Rightarrow> Some x | None \<Rightarrow> find P ys)"
  by (induction xs) simp_all

lemma find_None_set: "find P xs = None \<longleftrightarrow> (\<forall>x\<in>set xs. \<not> P x)"
  by (induction xs) simp_all

lemma find_Some_set: "find P xs = Some x \<Longrightarrow> x \<in> set xs \<and> P x"
  by (induction xs) (auto split: if_splits)

lemma distinct_filter_single:
  "distinct (map f xs) \<Longrightarrow> find (\<lambda>x. f x = k) xs = Some x \<Longrightarrow>
   filter (\<lambda>x. f x = k) xs = [x]"
proof (induction xs)
  case Nil
  then show ?case by simp
next
  case (Cons y ys)
  show ?case
  proof (cases "f y = k")
    case True
    with Cons.prems have "x = y"
      by simp
    moreover from True Cons.prems have "k \<notin> f ` set ys"
      by auto
    then have "\<forall>z\<in>set ys. f z \<noteq> k"
      by blast
    ultimately show ?thesis using True by (simp add: filter_empty_conv)
  next
    case False
    with Cons show ?thesis by simp
  qed
qed

lemma getCurrentUser_cong:
  "currentUser e' = currentUser e \<Longrightarrow> getCurrentUser e' d = getCurrentUser e d"
  by (simp add: getCurrentUser_def)

lemma savePaperAction_cong:
  "currentUser e' = currentUser e \<Longrightarrow> savePaperAction js e' now p d = savePaperAction js e now p d"
  using getCurrentUser_cong [of e' e d] by (simp add: savePaperAction_def)

lemma savePaperAction_started:
  "savePaperAction js e now p d = (Inr started, d1) \<Longrightarrow> ap_pdfLink p = Some l \<Longrightarrow> l \<noteq> [] \<Longrightarrow>
   started = Some \<lparr>task_paper = ap_id p, task_pdf = l\<rparr>"
  by (auto simp: savePaperAction_def Let_def split: prod.splits sum.splits option.splits)

text \<open>
  C6. A save of a record with a PDF link that returns normally has started the
  background unit, and what it returns and the store it leaves are the same in every
  world with the same signed-in user, whatever the PDF host and the model do there.
  When the unit is then run and the download, the analysis or the update of the
  catalog fails, the failure is logged by the unit, the store is left as the save
  left it, and the caller of the save still has its normal return.
\<close>

theorem background_failure_contained:
  assumes pdf: "ap_pdfLink p = Some l" "l \<noteq> []"
    and saved: "savePaperAction js e now p d = (Inr started, d1)"
  shows "started = Some \<lparr>task_paper = ap_id p, task_pdf = l\<rparr> \<and>
    (\<forall>e'. currentUser e' = currentUser e \<longrightarrow>
       savePaperAction js e' now p d = (Inr started, d1)) \<and>
    fst (save_and_settle js e now later p d) = Inr started \<and>
    (\<forall>err. axios_get_pdf e (secure_url l) = Inl err \<longrightarrow>
       save_and_settle js e now later p d =
         (Inr started, Some (AnalysisFailed (ap_id p) err), d1)) \<and>
    (\<forall>data err. axios_get_pdf e (secure_url l) = Inr data \<and>
       analyzePdfBuffer js e data = Inl err \<longrightarrow>
       save_and_settle js e now later p d =
         (Inr started, Some (AnalysisFailed (ap_id p) err), d1)) \<and>
    (\<forall>data result err. axios_get_pdf e (secure_url l) = Inr data \<and>
       analyzePdfBuffer js e data = Inr result \<and>
       update_with_analysis later (ap_id p) result d1 = Inl err \<longrightarrow>
       save_and_settle js e now later p d =
         (Inr started, Some (AnalysisFailed (ap_id p) err), d1))"
proof -
  have st: "started = Some \<lparr>task_paper = ap_id p, task_pdf = l\<rparr>"
    using savePaperAction_started [OF saved pdf] .
  have indep: "\<forall>e'. currentUser e' = currentUser e \<longrightarrow>
       savePaperAction js e' now p d = (Inr started, d1)"
  proof (intro allI impI)
    fix e' :: env
    assume "currentUser e' = currentUser e"
    from savePaperAction_cong [OF this, of js now p d] saved
    show "savePaperAction js e' now p d = (Inr started, d1)"
      by simp
  qed
  have settle: "save_and_settle js e now later p d =
      (Inr started,
       Some (snd (background_analysis js e later \<lparr>task_paper = ap_id p, task_pdf = l\<rparr> d1)),
       fst (background_analysis js e later \<lparr>task_paper = ap_id p, task_pdf = l\<rparr> d1))"
    using saved st by (simp add: save_and_settle_def split: prod.splits)
  have caught: "analyze_and_update js e later (ap_id p) l d1 = Inl err \<Longrightarrow>
      background_analysis js e later \<lparr>task_paper = ap_id p, task_pdf = l\<rparr> d1 =
        (d1, AnalysisFailed (ap_id p) err)" for err
    by (simp add: background_analysis_def)
  have a: "axios_get_pdf e (secure_url l) = Inl err \<Longrightarrow>
      analyze_and_update js e later (ap_id p) l d1 = Inl err" for err
    by (simp add: analyze_and_update_def)
  have b: "axios_get_pdf e (secure_url l) = Inr data \<Longrightarrow> analyzePdfBuffer js e data = Inl err \<Longrightarrow>
      analyze_and_update js e later (ap_id p) l d1 = Inl err" for data err
    by (simp add: analyze_and_update_def)
  have c: "axios_get_pdf e (secure_url l) = Inr data \<Longrightarrow> analyzePdfBuffer js e data = Inr result \<Longrightarrow>
      update_with_analysis later (ap_id p) result d1 = Inl err \<Longrightarrow>
      analyze_and_update js e later (ap_id p) l d1 = Inl err" for data result err
    by (simp add: analyze_and_update_def)
  show ?thesis
    using st indep settle caught a b c by auto
qed

theorem background_failure_contained_witness:
  "save_and_settle demo_js offline_env 1000 1500 lora empty_db =
     (Inr (Some lora_task),
      Some (AnalysisFailed ''2106.09685v2'' (TransportError ''connect ETIMEDOUT'')),
      saved_db) \<and>
   save_and_settle demo_js nokey_env 1000 1500 lora empty_db =
     (Inr (Some lora_task), Some (AnalysisFailed ''2106.09685v2'' MissingApiKey), saved_db) \<and>
   save_and_settle demo_js (demo_env ''null'') 1000 1500 lora empty_db =
     (Inr (Some lora_task), Some (AnalysisFailed ''2106.09685v2'' TypeError), saved_db)"
proof -
  have pdf: "ap_pdfLink lora = Some ''http://arxiv.org/pdf/2106.09685v2''"
    by code_simp
  have ne: "''http://arxiv.org/pdf/2106.09685v2'' \<noteq> []"
    by simp
  have pid: "ap_id lora = ''2106.09685v2''"
    by code_simp
  have saved1: "savePaperAction demo_js offline_env 1000 lora empty_db =
      (Inr (Some lora_task), saved_db)"
    by code_simp
  have saved2: "savePaperAction demo_js nokey_env 1000 lora empty_db =
      (Inr (Some lora_task), saved_db)"
    by code_simp
  have saved3: "savePaperAction demo_js (demo_env ''null'') 1000 lora empty_db =
      (Inr (Some lora_task), saved_db)"
    by code_simp
  have down: "axios_get_pdf offline_env (secure_url ''http://arxiv.org/pdf/2106.09685v2'') =
      Inl (TransportError ''connect ETIMEDOUT'')"
    by code_simp
  have nokey: "axios_get_pdf nokey_env (secure_url ''http://arxiv.org/pdf/2106.09685v2'') =
      Inr ''%PDF'' \<and> analyzePdfBuffer demo_js nokey_env ''%PDF'' = Inl MissingApiKey"
    by code_simp
  have null: "axios_get_pdf (demo_env ''null'') (secure_url ''http://arxiv.org/pdf/2106.09685v2'') =
      Inr ''%PDF'' \<and> analyzePdfBuffer demo_js (demo_env ''null'') ''%PDF'' = Inr JNull \<and>
      update_with_analysis 1500 (ap_id lora) JNull saved_db = Inl TypeError"
    by code_simp
  have one: "save_and_settle demo_js offline_env 1000 1500 lora empty_db =
     (Inr (Some lora_task),
      Some (AnalysisFailed ''2106.09685v2'' (TransportError ''connect ETIMEDOUT'')),
      saved_db)"
    using background_failure_contained [OF pdf ne saved1, of 1500] down pid by simp
  have two: "save_and_settle demo_js nokey_env 1000 1500 lora empty_db =
     (Inr (Some lora_task), Some (AnalysisFailed ''2106.09685v2'' MissingApiKey), saved_db)"
    using background_failure_contained [OF pdf ne saved2, of 1500] nokey pid by simp
  have three: "save_and_settle demo_js (demo_env ''null'') 1000 1500 lora empty_db =
     (Inr (Some lora_task), Some (AnalysisFailed ''2106.09685v2'' TypeError), saved_db)"
    using background_failure_contained [OF pdf ne saved3, of 1500] null pid by simp
  from one two three show ?thesis
    by simp
qed

lemma getCurrentUser_signed_in:
  assumes "currentUser e = Some cu" and "emailAddresses cu = address # others" and "address \<noteq> []"
  shows "getCurrentUser e d =
     (case find (\<lambda>u. user_email u = address) (users d) of
        Some u \<Rightarrow>
          (Inr (u\<lparr>user_name := display_name cu\<rparr>),
           d\<lparr>users := map (\<lambda>x. if user_email x = address
                                 then x\<lparr>user_name := display_name cu\<rparr> else x) (users d)\<rparr>)
      | None \<Rightarrow>
          (Inr \<lparr>user_id = fresh_id (map user_id (users d)), user_email = address,
                 user_name = display_name cu\<rparr>,
           d\<lparr>users := users d @ [\<lparr>user_id = fresh_id (map user_id (users d)),
                                    user_email = address,
                                    user_name = display_name cu\<rparr>]\<rparr>))"
  using assms by (simp add: getCurrentUser_def Let_def split: option.splits)

lemma find_saved_fresh:
  assumes "store_ok d"
  shows "find_saved d (fresh_id (map user_id (users d))) ident = None"
proof -
  have mem: "userId s \<in> set (map user_id (users d))" if "s \<in> set (savedPapers d)" for s
    using assms that by (auto simp: store_ok_def list_all_iff)
  have "userId s \<noteq> fresh_id (map user_id (users d))" if "s \<in> set (savedPapers d)" for s
    using mem [OF that] fresh_id_new [of "map user_id (users d)"] by metis
  then show ?thesis
    unfolding find_saved_def find_None_set by blast
qed

lemma remote_lookup_cases:
  "(remote_lookup e ident = None \<longleftrightarrow>
      searchArxiv e (arxiv_id_of ident) 1 0 ''submittedDate'' ''descending'' = []) \<and>
   (\<forall>paper others.
      searchArxiv e (arxiv_id_of ident) 1 0 ''submittedDate'' ''descending'' = paper # others \<longrightarrow>
      remote_lookup e ident = Some (remote_view paper))"
  by (simp add: remote_lookup_def split: list.splits)

lemma saved_has_paper:
  assumes "store_ok d" and "find_saved d uid ident = Some entry"
  shows "\<exists>sp. find_paper d ident = Some sp"
proof -
  from find_Some_set [of "\<lambda>s. userId s = uid \<and> paperId s = ident" "savedPapers d" entry] assms(2)
  have "entry \<in> set (savedPapers d)" and "paperId entry = ident"
    by (simp_all add: find_saved_def)
  with assms(1) have "ident \<in> set (map paper_id (papers d))"
    by (auto simp: store_ok_def list_all_iff)
  then have "find_paper d ident \<noteq> None"
    by (auto simp: find_paper_def find_None_set)
  then show ?thesis
    by auto
qed

text \<open>
  C8, amended. For a signed-in user with an email address, on a store that satisfies
  its constraints:
  \<^item> when the user (the User row of that address) has saved the paper, the catalog has
    its row; the action returns the saved view (the row with its summary, institution
    and the set of its topics, marked as saved) with the authors read from the row's
    authors column, and throws a SyntaxError when that column is not JSON;
  \<^item> when the user has not saved the paper, the action returns the first result of a
    remote search for the identifier as an unsaved view without summary and
    institution, and null only when that search returns nothing.
\<close>

theorem getPaperByIdAction_result:
  assumes user: "currentUser e = Some cu" "emailAddresses cu = address # others" "address \<noteq> []"
    and ok: "store_ok d"
  shows
   "(\<forall>u entry.
       find (\<lambda>u. user_email u = address) (users d) = Some u \<and>
       find_saved d (user_id u) ident = Some entry \<longrightarrow>
       (\<exists>sp. find_paper d ident = Some sp \<and>
          (JSON_parse js (authors sp) = None \<longrightarrow>
             fst (getPaperByIdAction js e ident d) = Inl SyntaxError) \<and>
          (\<forall>parsed. JSON_parse js (authors sp) = Some parsed \<longrightarrow>
             fst (getPaperByIdAction js e ident d) =
               Inr (Some (saved_view js sp (topics_of d ident) parsed)) \<and>
             v_isSaved (saved_view js sp (topics_of d ident) parsed) \<and>
             v_authors (saved_view js sp (topics_of d ident) parsed) = parsed \<and>
             v_summary (saved_view js sp (topics_of d ident) parsed) = summary sp \<and>
             v_institution (saved_view js sp (topics_of d ident) parsed) = institution sp \<and>
             v_topics (saved_view js sp (topics_of d ident) parsed) =
               Some (topics_of d ident)))) \<and>
    ((\<forall>u\<in>set (users d). user_email u = address \<longrightarrow> find_saved d (user_id u) ident = None) \<longrightarrow>
       fst (getPaperByIdAction js e ident d) = Inr (remote_lookup e ident)) \<and>
    (remote_lookup e ident = None \<longleftrightarrow>
       searchArxiv e (arxiv_id_of ident) 1 0 ''submittedDate'' ''descending'' = []) \<and>
    (\<forall>paper others.
       searchArxiv e (arxiv_id_of ident) 1 0 ''submittedDate'' ''descending'' = paper # others \<longrightarrow>
       remote_lookup e ident = Some (remote_view paper) \<and>
       \<not> v_isSaved (remote_view paper) \<and> v_summary (remote_view paper) = None \<and>
       v_institution (remote_view paper) = None)"
proof -
  note gu = getCurrentUser_signed_in [OF user, of d]
  have saved: "\<exists>sp. find_paper d ident = Some sp \<and>
          (JSON_parse js (authors sp) = None \<longrightarrow>
             fst (getPaperByIdAction js e ident d) = Inl SyntaxError) \<and>
          (\<forall>parsed. JSON_parse js (authors sp) = Some parsed \<longrightarrow>
             fst (getPaperByIdAction js e ident d) =
               Inr (Some (saved_view js sp (topics_of d ident) parsed)))"
    if u: "find (\<lambda>u. user_email u = address) (users d) = Some u"
      and link: "find_saved d (user_id u) ident = Some entry"
    for u entry
  proof -
    from saved_has_paper [OF ok link] obtain sp where sp: "find_paper d ident = Some sp"
      by blast
    have "fst (getPaperByIdAction js e ident d) = Inl SyntaxError"
      if "JSON_parse js (authors sp) = None"
      using that u link sp
      by (simp add: getPaperByIdAction_def gu find_saved_def find_paper_def)
    moreover have "fst (getPaperByIdAction js e ident d) =
        Inr (Some (saved_view js sp (topics_of d ident) parsed))"
      if "JSON_parse js (authors sp) = Some parsed" for parsed
      using that u link sp
      by (simp add: getPaperByIdAction_def gu find_saved_def find_paper_def topics_of_def)
    ultimately show ?thesis
      using sp by auto
  qed
  have unsaved: "fst (getPaperByIdAction js e ident d) = Inr (remote_lookup e ident)"
    if none: "\<forall>u\<in>set (users d). user_email u = address \<longrightarrow> find_saved d (user_id u) ident = None"
  proof (cases "find (\<lambda>u. user_email u = address) (users d)")
    case None
    with find_saved_fresh [OF ok, of ident] show ?thesis
      by (simp add: getPaperByIdAction_def gu find_saved_def)
  next
    case (Some u)
    with none find_Some_set [OF Some] have "find_saved d (user_id u) ident = None"
      by blast
    with Some show ?thesis
      by (simp add: getPaperByIdAction_def gu find_saved_def)
  qed
  have view: "v_isSaved (saved_view js sp ts parsed) \<and>
      v_authors (saved_view js sp ts parsed) = parsed \<and>
      v_summary (saved_view js sp ts parsed) = summary sp \<and>
      v_institution (saved_view js sp ts parsed) = institution sp \<and>
      v_topics (saved_view js sp ts parsed) = Some ts" for sp ts parsed
    by (simp add: saved_view_def)
  have first: "\<forall>u entry.
       find (\<lambda>u. user_email u = address) (users d) = Some u \<and>
       find_saved d (user_id u) ident = Some entry \<longrightarrow>
       (\<exists>sp. find_paper d ident = Some sp \<and>
          (JSON_parse js (authors sp) = None \<longrightarrow>
             fst (getPaperByIdAction js e ident d) = Inl SyntaxError) \<and>
          (\<forall>parsed. JSON_parse js (authors sp) = Some parsed \<longrightarrow>
             fst (getPaperByIdAction js e ident d) =
               Inr (Some (saved_view js sp (topics_of d ident) parsed)) \<and>
             v_isSaved (saved_view js sp (topics_of d ident) parsed) \<and>
             v_authors (saved_view js sp (topics_of d ident) parsed) = parsed \<and>
             v_summary (saved_view js sp (topics_of d ident) parsed) = summary sp \<and>
             v_institution (saved_view js sp (topics_of d ident) parsed) = institution sp \<and>
             v_topics (saved_view js sp (topics_of d ident) parsed) =
               Some (topics_of d ident)))"
    using saved view by meson
  have last: "\<forall>paper others.
       searchArxiv e (arxiv_id_of ident) 1 0 ''submittedDate'' ''descending'' = paper # others \<longrightarrow>
       remote_lookup e ident = Some (remote_view paper) \<and>
       \<not> v_isSaved (remote_view paper) \<and> v_summary (remote_view paper) = None \<and>
       v_institution (remote_view paper) = None"
    using remote_lookup_cases [of e ident] by (simp add: remote_view_def)
  from first unsaved remote_lookup_cases [of e ident] last show ?thesis
    by blast
qed

text \<open>
  C8. As stated the claim fails where the user has not saved the paper: nothing is
  saved in the empty store, and the action returns the result of the remote search,
  not null.
\<close>

theorem getPaperByIdAction_null_counter:
  "find_saved empty_db 1 ''2106.09685v2'' = None \<and>
   users empty_db = [] \<and>
   fst (getPaperByIdAction demo_js (demo_env []) ''2106.09685v2'' empty_db) =
     Inr (Some (remote_view lora)) \<and>
   fst (getPaperByIdAction demo_js (demo_env []) ''2106.09685v2'' empty_db) \<noteq> Inr None"
  by code_simp

theorem getPaperByIdAction_result_witness:
  "fst (getPaperByIdAction demo_js (demo_env []) ''2106.09685v2'' enriched_db) =
     Inr (Some (saved_view demo_js (hd (papers enriched_db))
                  (topics_of enriched_db ''2106.09685v2'') (JArr (map JStr lora_authors)))) \<and>
   topics_of enriched_db ''2106.09685v2'' =
     {\<lparr>topic_id = 1, topic_name = ''Agent''\<rparr>,
      \<lparr>topic_id = 2, topic_name = ''Large Language Models''\<rparr>,
      \<lparr>topic_id = 3, topic_name = ''Model Architecture''\<rparr>} \<and>
   fst (getPaperByIdAction demo_js (demo_env []) ''2106.09685v2'' broken_db) = Inl SyntaxError \<and>
   fst (getPaperByIdAction demo_js (demo_env []) ''2106.09685v2'' empty_db) =
     Inr (remote_lookup (demo_env []) ''2106.09685v2'') \<and>
   remote_lookup (demo_env []) ''2106.09685v2'' = Some (remote_view lora)"
proof -
  have found: "searchArxiv (demo_env []) (arxiv_id_of ''2106.09685v2'') 1 0 ''submittedDate''
      ''descending'' = lora # []"
    by code_simp
  have user: "currentUser (demo_env []) = Some demo_user"
    "emailAddresses demo_user = ''demo@infrared-zenith.com'' # []"
    "''demo@infrared-zenith.com'' \<noteq> []"
    by (simp_all add: demo_env_def demo_user_def)
  have ok1: "store_ok enriched_db"
    by code_simp
  have ok2: "store_ok empty_db"
    by code_simp
  have ok3: "store_ok broken_db"
    by code_simp
  have saved: "find (\<lambda>u. user_email u = ''demo@infrared-zenith.com'') (users enriched_db) =
        Some (hd (users enriched_db)) \<and>
      find_saved enriched_db (user_id (hd (users enriched_db))) ''2106.09685v2'' =
        Some (hd (savedPapers enriched_db))"
    by code_simp
  have row: "find_paper enriched_db ''2106.09685v2'' = Some (hd (papers enriched_db)) \<and>
      JSON_parse demo_js (authors (hd (papers enriched_db))) = Some (JArr (map JStr lora_authors))"
    by code_simp
  have broken: "find (\<lambda>u. user_email u = ''demo@infrared-zenith.com'') (users broken_db) =
        Some (hd (users broken_db)) \<and>
      find_saved broken_db (user_id (hd (users broken_db))) ''2106.09685v2'' =
        Some (hd (savedPapers broken_db))"
    by code_simp
  have row3: "find_paper broken_db ''2106.09685v2'' = Some (hd (papers broken_db)) \<and>
      JSON_parse demo_js (authors (hd (papers broken_db))) = None"
    by code_simp
  have unsaved: "\<forall>u\<in>set (users empty_db). user_email u = ''demo@infrared-zenith.com'' \<longrightarrow>
      find_saved empty_db (user_id u) ''2106.09685v2'' = None"
    by (simp add: empty_db_def)
  have tops: "topics_of enriched_db ''2106.09685v2'' =
     {\<lparr>topic_id = 1, topic_name = ''Agent''\<rparr>,
      \<lparr>topic_id = 2, topic_name = ''Large Language Models''\<rparr>,
      \<lparr>topic_id = 3, topic_name = ''Model Architecture''\<rparr>}"
    by code_simp
  note saved_case = conjunct1 [OF getPaperByIdAction_result [OF user ok1,
      of "''2106.09685v2''" demo_js], rule_format, OF saved]
  then obtain sp where "find_paper enriched_db ''2106.09685v2'' = Some sp"
    and "\<forall>parsed. JSON_parse demo_js (authors sp) = Some parsed \<longrightarrow>
      fst (getPaperByIdAction demo_js (demo_env []) ''2106.09685v2'' enriched_db) =
        Inr (Some (saved_view demo_js sp (topics_of enriched_db ''2106.09685v2'') parsed))"
    by auto
  with row have a: "fst (getPaperByIdAction demo_js (demo_env []) ''2106.09685v2'' enriched_db) =
     Inr (Some (saved_view demo_js (hd (papers enriched_db))
                  (topics_of enriched_db ''2106.09685v2'') (JArr (map JStr lora_authors))))"
    by simp
  note broken_case = conjunct1 [OF getPaperByIdAction_result [OF user ok3,
      of "''2106.09685v2''" demo_js], rule_format, OF broken]
  then obtain sp3 where "find_paper broken_db ''2106.09685v2'' = Some sp3"
    and "JSON_parse demo_js (authors sp3) = None \<longrightarrow>
      fst (getPaperByIdAction demo_js (demo_env []) ''2106.09685v2'' broken_db) = Inl SyntaxError"
    by auto
  with row3 have s: "fst (getPaperByIdAction demo_js (demo_env []) ''2106.09685v2'' broken_db) =
      Inl SyntaxError"
    by simp
  from getPaperByIdAction_result [OF user ok2, of "''2106.09685v2''" demo_js] unsaved
  have b: "fst (getPaperByIdAction demo_js (demo_env []) ''2106.09685v2'' empty_db) =
     Inr (remote_lookup (demo_env []) ''2106.09685v2'')"
    by blast
  from getPaperByIdAction_result [OF user ok2, of "''2106.09685v2''" demo_js] found
  have c: "remote_lookup (demo_env []) ''2106.09685v2'' = Some (remote_view lora)"
    by blast
  from a tops s b c show ?thesis by simp
qed

theorem regenerate_failures_witness:
  "regenerateSummaryAction demo_js (demo_env lora_analysis_text) 3000 ''2106.09685v2'' empty_db =
     (\<lparr>success = False, error_msg = Some (Text ''Paper not found'')\<rparr>, empty_db) \<and>
   regenerateSummaryAction demo_js (demo_env lora_analysis_text) 3000 ''2106.09685v2'' no_pdf_db =
     (\<lparr>success = False, error_msg = Some (Text ''No PDF available for this paper'')\<rparr>,
      no_pdf_db) \<and>
   map summary (papers no_pdf_db) = [Some ''S'']"
proof -
  have a: "find_paper empty_db ''2106.09685v2'' = None"
    by code_simp
  have b: "find_paper no_pdf_db ''2106.09685v2'' = Some (hd (papers no_pdf_db)) \<and>
           (filePath (hd (papers no_pdf_db)) = None \<or> filePath (hd (papers no_pdf_db)) = Some [])"
    by code_simp
  have c: "map summary (papers no_pdf_db) = [Some ''S'']"
    by code_simp
  from regenerate_failures
    [of empty_db "''2106.09685v2''" demo_js "demo_env lora_analysis_text" 3000] a
  have one: "regenerateSummaryAction demo_js (demo_env lora_analysis_text) 3000 ''2106.09685v2''
      empty_db = (\<lparr>success = False, error_msg = Some (Text ''Paper not found'')\<rparr>, empty_db)"
    by blast
  from regenerate_failures
    [of no_pdf_db "''2106.09685v2''" demo_js "demo_env lora_analysis_text" 3000
        "hd (papers no_pdf_db)"] b
  have two: "regenerateSummaryAction demo_js (demo_env lora_analysis_text) 3000 ''2106.09685v2''
      no_pdf_db =
     (\<lparr>success = False, error_msg = Some (Text ''No PDF available for this paper'')\<rparr>,
      no_pdf_db)"
    by blast
  from one two c show ?thesis by simp
qed

lemma filter_map_preserve:
  "(\<And>x. P (g x) = P x) \<Longrightarrow> filter P (map g xs) = map g (filter P xs)"
  by (induction xs) simp_all

lemma refreshed_id [simp]: "paper_id (refreshed js now published p r) = paper_id r"
  by (simp add: refreshed_def)

lemma getCurrentUser_lookups:
  assumes "getCurrentUser e d = (r, d1)"
  shows "find_paper d1 pid = find_paper d pid" and "topics_of d1 pid = topics_of d pid"
    and "find_saved d1 uid pid = find_saved d uid pid"
  using getCurrentUser_frame [OF assms]
  by (simp_all add: find_paper_def topics_of_def find_saved_def)

lemma upsert_paper_frame:
  "users (upsert_paper js now published p d) = users d \<and>
   savedPapers (upsert_paper js now published p d) = savedPapers d \<and>
   topics (upsert_paper js now published p d) = topics d \<and>
   paperTopics (upsert_paper js now published p d) = paperTopics d"
  by (simp add: upsert_paper_def split: option.splits)

lemma upsert_saved_frame:
  "users (upsert_saved now uid pid d) = users d \<and>
   papers (upsert_saved now uid pid d) = papers d \<and>
   topics (upsert_saved now uid pid d) = topics d \<and>
   paperTopics (upsert_saved now uid pid d) = paperTopics d"
  by (simp add: upsert_saved_def split: option.splits)

lemma upsert_paper_existing:
  assumes "find_paper d (ap_id p) = Some r"
  shows "papers (upsert_paper js now published p d) =
           map (\<lambda>x. if paper_id x = ap_id p then refreshed js now published p x else x) (papers d)"
    and "find_paper (upsert_paper js now published p d) (ap_id p) =
           Some (refreshed js now published p r)"
proof -
  show 1: "papers (upsert_paper js now published p d) =
           map (\<lambda>x. if paper_id x = ap_id p then refreshed js now published p x else x) (papers d)"
    using assms by (simp add: upsert_paper_def)
  have "find (\<lambda>x. paper_id x = ap_id p)
          (map (\<lambda>x. if paper_id x = ap_id p then refreshed js now published p x else x) (papers d)) =
        map_option (\<lambda>x. if paper_id x = ap_id p then refreshed js now published p x else x)
          (find (\<lambda>x. paper_id x = ap_id p) (papers d))"
    by (rule find_map_preserve) simp
  moreover have "paper_id r = ap_id p"
    using find_Some_set [of "\<lambda>x. paper_id x = ap_id p" "papers d" r] assms
    by (simp add: find_paper_def)
  ultimately show "find_paper (upsert_paper js now published p d) (ap_id p) =
           Some (refreshed js now published p r)"
    using assms 1 by (simp add: find_paper_def)
qed

lemma savePaperAction_cases:
  assumes "getCurrentUser e d = (ru, d0)"
  shows "savePaperAction js e now p d =
     (case ru of
        Inl err \<Rightarrow> (Inl err, d0)
      | Inr user \<Rightarrow>
          (case new_Date js (ap_published p) of
             None \<Rightarrow> (Inl ValidationError, d0)
           | Some published \<Rightarrow>
               (Inr (case ap_pdfLink p of
                       None \<Rightarrow> None
                     | Some l \<Rightarrow> if l = [] then None
                                 else Some \<lparr>task_paper = ap_id p, task_pdf = l\<rparr>),
                upsert_saved now (user_id user) (ap_id p) (upsert_paper js now published p d0))))"
  using assms by (simp add: savePaperAction_def Let_def split: sum.splits option.splits)

lemma getCurrentUser_ok_iff:
  "(\<exists>user d1. getCurrentUser e d = (Inr user, d1)) \<longleftrightarrow>
   (\<exists>cu address others. currentUser e = Some cu \<and> emailAddresses cu = address # others \<and>
      address \<noteq> [])"
  by (auto simp: getCurrentUser_def Let_def split: option.splits list.splits)

lemma savePaperAction_ok_iff:
  "(\<exists>started. fst (savePaperAction js e now p d) = Inr started) \<longleftrightarrow>
   (\<exists>cu address others published. currentUser e = Some cu \<and>
      emailAddresses cu = address # others \<and> address \<noteq> [] \<and>
      new_Date js (ap_published p) = Some published)"
proof -
  obtain ru d0 where gu: "getCurrentUser e d = (ru, d0)"
    by (cases "getCurrentUser e d") simp
  note cases = savePaperAction_cases [OF gu, of js now p]
  show ?thesis
  proof (cases ru)
    case (Inl err)
    with gu getCurrentUser_ok_iff [of e d] have
      "\<not> (\<exists>cu address others. currentUser e = Some cu \<and> emailAddresses cu = address # others \<and>
          address \<noteq> [])"
      by auto
    with Inl cases show ?thesis
      by auto
  next
    case (Inr user)
    with gu getCurrentUser_ok_iff [of e d] have
      "\<exists>cu address others. currentUser e = Some cu \<and> emailAddresses cu = address # others \<and>
          address \<noteq> []"
      by auto
    with Inr cases show ?thesis
      by (cases "new_Date js (ap_published p)") auto
  qed
qed

text \<open>
  C2. When the catalog has a row for the record's identifier:
  \<^item> whatever the save does, it leaves the row's summary and institution (and its
    identifier, creation time and topics) as they were, null or not;
  \<^item> the save returns normally exactly when the user is signed in with an email
    address and the record's published date is a date;
  \<^item> a save that returns normally has rewritten the title, the authors, the abstract,
    the link and the published date from the record, and the PDF link when the record
    has one (the store stamps \<open>updatedAt\<close> with the time of the write);
  \<^item> a save that throws has not touched the row.
\<close>

theorem save_keeps_enrichment:
  assumes row: "find_paper d (ap_id p) = Some r"
  shows
   "(\<exists>r'. find_paper (snd (savePaperAction js e now p d)) (ap_id p) = Some r' \<and>
          summary r' = summary r \<and> institution r' = institution r \<and>
          paper_id r' = paper_id r \<and> createdAt r' = createdAt r) \<and>
    topics_of (snd (savePaperAction js e now p d)) (ap_id p) = topics_of d (ap_id p) \<and>
    ((\<exists>started. fst (savePaperAction js e now p d) = Inr started) \<longleftrightarrow>
       (\<exists>cu address others published. currentUser e = Some cu \<and>
          emailAddresses cu = address # others \<and> address \<noteq> [] \<and>
          new_Date js (ap_published p) = Some published)) \<and>
    (\<forall>started published.
       fst (savePaperAction js e now p d) = Inr started \<and>
       new_Date js (ap_published p) = Some published \<longrightarrow>
       find_paper (snd (savePaperAction js e now p d)) (ap_id p) =
         Some (r\<lparr>title := ap_title p,
                 authors := JSON_stringify js (JArr (map JStr (ap_authors p))),
                 abstract := Some (ap_summary p),
                 url := Some (ap_link p),
                 publishedDate := Some published,
                 filePath := (case ap_pdfLink p of None \<Rightarrow> filePath r | Some l \<Rightarrow> Some l),
                 updatedAt := now\<rparr>)) \<and>
    (\<forall>err. fst (savePaperAction js e now p d) = Inl err \<longrightarrow>
       find_paper (snd (savePaperAction js e now p d)) (ap_id p) = Some r)"
proof -
  obtain res d' where save: "savePaperAction js e now p d = (res, d')"
    by (cases "savePaperAction js e now p d") simp
  obtain ru d0 where gu: "getCurrentUser e d = (ru, d0)"
    by (cases "getCurrentUser e d") simp
  note look = getCurrentUser_lookups [OF gu]
  have row0: "find_paper d0 (ap_id p) = Some r"
    using row look(1) by simp
  have body: "(\<exists>r'. find_paper d' (ap_id p) = Some r' \<and> summary r' = summary r \<and>
          institution r' = institution r \<and> paper_id r' = paper_id r \<and>
          createdAt r' = createdAt r) \<and>
    topics_of d' (ap_id p) = topics_of d (ap_id p) \<and>
    (\<forall>started published. res = Inr started \<and> new_Date js (ap_published p) = Some published \<longrightarrow>
       find_paper d' (ap_id p) =
         Some (r\<lparr>title := ap_title p,
                 authors := JSON_stringify js (JArr (map JStr (ap_authors p))),
                 abstract := Some (ap_summary p),
                 url := Some (ap_link p),
                 publishedDate := Some published,
                 filePath := (case ap_pdfLink p of None \<Rightarrow> filePath r | Some l \<Rightarrow> Some l),
                 updatedAt := now\<rparr>)) \<and>
    (\<forall>err. res = Inl err \<longrightarrow> find_paper d' (ap_id p) = Some r)"
  proof (cases ru)
    case (Inl err)
    then have "res = Inl err" and "d' = d0"
      using save savePaperAction_cases [OF gu, of js now p] by simp_all
    then show ?thesis
      using row0 look(2) by simp
  next
    case (Inr user)
    show ?thesis
    proof (cases "new_Date js (ap_published p)")
      case None
      then have "res = Inl ValidationError" and "d' = d0"
        using save Inr savePaperAction_cases [OF gu, of js now p] by simp_all
      then show ?thesis
        using row0 look(2) by simp
    next
      case (Some published)
      then have d': "d' = upsert_saved now (user_id user) (ap_id p)
                            (upsert_paper js now published p d0)"
        and res: "\<exists>started. res = Inr started"
        using save Inr savePaperAction_cases [OF gu, of js now p] by auto
      have found: "find_paper d' (ap_id p) = Some (refreshed js now published p r)"
        using upsert_paper_existing(2) [OF row0, of js now published] upsert_saved_frame
        by (simp add: d' find_paper_def)
      have tops: "topics_of d' (ap_id p) = topics_of d (ap_id p)"
        using upsert_paper_frame [of js now published p d0]
          upsert_saved_frame [of now "user_id user" "ap_id p" "upsert_paper js now published p d0"]
          look(2) [of "ap_id p"]
        by (simp add: d' topics_of_def)
      show ?thesis
        using found tops res Some
        by (auto simp: refreshed_def authors_json_def)
    qed
  qed
  from body savePaperAction_ok_iff [of js e now p d] show ?thesis
    by (simp add: save)
qed

theorem save_keeps_enrichment_witness:
  "(\<exists>started. fst (savePaperAction demo_js (demo_env []) 2000 lora_revised enriched_db) =
       Inr started) \<and>
   find_paper (snd (savePaperAction demo_js (demo_env []) 2000 lora_revised enriched_db))
       ''2106.09685v2'' =
     Some \<lparr>paper_id = ''2106.09685v2'',
           title = ''LoRA (revised)'',
           authors = chen_authors_text,
           abstract = Some ''Revised abstract'',
           summary = Some ''S'',
           institution = Some ''I'',
           url = Some ''https://arxiv.org/abs/2106.09685v2'',
           filePath = Some ''https://arxiv.org/pdf/2106.09685v2'',
           publishedDate = Some 1634342400000,
           createdAt = 1000,
           updatedAt = 2000\<rparr> \<and>
   find_paper (snd (savePaperAction demo_js (demo_env []) 2000 undated enriched_db))
       ''2106.09685v2'' = find_paper enriched_db ''2106.09685v2''"
proof -
  have pid: "ap_id lora_revised = ''2106.09685v2''" "ap_id undated = ''2106.09685v2''"
    by code_simp+
  have row: "find_paper enriched_db (ap_id lora_revised) = Some (hd (papers enriched_db))"
    by code_simp
  have row': "find_paper enriched_db (ap_id undated) = Some (hd (papers enriched_db))"
    by code_simp
  have user: "currentUser (demo_env []) = Some demo_user \<and>
      emailAddresses demo_user = ''demo@infrared-zenith.com'' # [] \<and>
      ''demo@infrared-zenith.com'' \<noteq> [] \<and>
      new_Date demo_js (ap_published lora_revised) = Some 1634342400000"
    by code_simp
  have nodate: "new_Date demo_js (ap_published undated) = None"
    by code_simp
  have old: "hd (papers enriched_db) =
      \<lparr>paper_id = ''2106.09685v2'',
       title = ''LoRA: Low-Rank Adaptation of Large Language Models'',
       authors = lora_authors_text,
       abstract = Some ''We propose LoRA...'',
       summary = Some ''S'',
       institution = Some ''I'',
       url = Some ''http://arxiv.org/abs/2106.09685v2'',
       filePath = Some ''http://arxiv.org/pdf/2106.09685v2'',
       publishedDate = Some 1623888000000,
       createdAt = 1000,
       updatedAt = 1500\<rparr>"
    by code_simp
  have new: "ap_title lora_revised = ''LoRA (revised)'' \<and>
      JSON_stringify demo_js (JArr (map JStr (ap_authors lora_revised))) = chen_authors_text \<and>
      ap_summary lora_revised = ''Revised abstract'' \<and>
      ap_link lora_revised = ''https://arxiv.org/abs/2106.09685v2'' \<and>
      ap_pdfLink lora_revised = Some ''https://arxiv.org/pdf/2106.09685v2''"
    by code_simp
  note inst = save_keeps_enrichment [OF row, of demo_js "demo_env []" 2000]
  from inst user have ok: "\<exists>started. fst (savePaperAction demo_js (demo_env []) 2000 lora_revised
      enriched_db) = Inr started"
    by blast
  with inst user have "find_paper (snd (savePaperAction demo_js (demo_env []) 2000 lora_revised
        enriched_db)) (ap_id lora_revised) =
      Some ((hd (papers enriched_db))
             \<lparr>title := ap_title lora_revised,
              authors := JSON_stringify demo_js (JArr (map JStr (ap_authors lora_revised))),
              abstract := Some (ap_summary lora_revised),
              url := Some (ap_link lora_revised),
              publishedDate := Some 1634342400000,
              filePath := (case ap_pdfLink lora_revised of
                             None \<Rightarrow> filePath (hd (papers enriched_db)) | Some l \<Rightarrow> Some l),
              updatedAt := 2000\<rparr>)"
    by blast
  then have refreshed: "find_paper (snd (savePaperAction demo_js (demo_env []) 2000 lora_revised
        enriched_db)) ''2106.09685v2'' =
     Some \<lparr>paper_id = ''2106.09685v2'',
           title = ''LoRA (revised)'',
           authors = chen_authors_text,
           abstract = Some ''Revised abstract'',
           summary = Some ''S'',
           institution = Some ''I'',
           url = Some ''https://arxiv.org/abs/2106.09685v2'',
           filePath = Some ''https://arxiv.org/pdf/2106.09685v2'',
           publishedDate = Some 1634342400000,
           createdAt = 1000,
           updatedAt = 2000\<rparr>"
    by (simp add: old new pid)
  note inst' = save_keeps_enrichment [OF row', of demo_js "demo_env []" 2000]
  from inst' nodate have "\<not> (\<exists>started. fst (savePaperAction demo_js (demo_env []) 2000 undated
      enriched_db) = Inr started)"
    by auto
  then obtain err where "fst (savePaperAction demo_js (demo_env []) 2000 undated enriched_db) =
      Inl err"
    by (cases "fst (savePaperAction demo_js (demo_env []) 2000 undated enriched_db)") auto
  with inst' row' have kept: "find_paper (snd (savePaperAction demo_js (demo_env []) 2000 undated
      enriched_db)) ''2106.09685v2'' = find_paper enriched_db ''2106.09685v2''"
    by (simp add: pid)
  from ok refreshed kept show ?thesis
    by simp
qed

lemma getCurrentUser_again:
  assumes first: "getCurrentUser e d = (Inr user, d1)" and same: "users d2 = users d1"
  shows "getCurrentUser e d2 = (Inr user, d2)"
proof -
  from first obtain cu address others where
    cu: "currentUser e = Some cu" "emailAddresses cu = address # others" "address \<noteq> []"
    by (auto simp: getCurrentUser_def split: option.splits list.splits if_splits)
  let ?f = "\<lambda>x. if user_email x = address then x\<lparr>user_name := display_name cu\<rparr> else x"
  note gu = getCurrentUser_signed_in [OF cu]
  show ?thesis
  proof (cases "find (\<lambda>u. user_email u = address) (users d)")
    case None
    let ?u = "\<lparr>user_id = fresh_id (map user_id (users d)), user_email = address,
               user_name = display_name cu\<rparr>"
    from None first have user: "user = ?u" and d1: "users d1 = users d @ [?u]"
      by (auto simp: gu)
    have "find (\<lambda>u. user_email u = address) (users d2) = Some ?u"
      using None by (simp add: same d1 find_append_split)
    moreover have "map ?f (users d) = users d"
      using None by (simp add: find_None_set map_idI)
    ultimately show ?thesis
      by (simp add: gu [of d2] user same d1)
  next
    case (Some u)
    from Some first have user: "user = u\<lparr>user_name := display_name cu\<rparr>"
      and d1: "users d1 = map ?f (users d)"
      by (auto simp: gu)
    have mail: "user_email u = address"
      using find_Some_set [OF Some] by simp
    have "find (\<lambda>u. user_email u = address) (map ?f (users d)) =
          map_option ?f (find (\<lambda>u. user_email u = address) (users d))"
      by (rule find_map_preserve) simp
    then have "find (\<lambda>u. user_email u = address) (users d2) = Some (u\<lparr>user_name := display_name cu\<rparr>)"
      using Some mail by (simp add: same d1)
    moreover have "map ?f (map ?f (users d)) = map ?f (users d)"
      by simp
    ultimately show ?thesis
      by (simp add: gu [of d2] user same d1)
  qed
qed

lemma upsert_paper_found:
  "\<exists>r. find_paper (upsert_paper js now published p d) (ap_id p) = Some r"
proof (cases "find_paper d (ap_id p)")
  case None
  then show ?thesis
    by (simp add: upsert_paper_def find_paper_def find_append_split created_def)
next
  case (Some r)
  from upsert_paper_existing(2) [OF Some] show ?thesis
    by blast
qed

lemma upsert_paper_rows:
  assumes "r \<in> set (papers (upsert_paper js t published p d))" and "paper_id r = ap_id p"
  shows "refreshed js t2 published p r = r\<lparr>updatedAt := t2\<rparr>"
proof (cases "find_paper d (ap_id p)")
  case None
  then have "\<forall>x\<in>set (papers d). paper_id x \<noteq> ap_id p"
    by (simp add: find_paper_def find_None_set)
  with assms None have "r = created js t published p"
    by (auto simp: upsert_paper_def)
  then show ?thesis
    by (simp add: refreshed_def created_def split: option.splits)
next
  case (Some existing)
  with assms obtain x where "r = refreshed js t published p x"
    by (auto simp: upsert_paper_def split: if_splits)
  then show ?thesis
    by (simp add: refreshed_def split: option.splits)
qed

lemma upsert_paper_distinct:
  assumes "distinct (map paper_id (papers d))"
  shows "distinct (map paper_id (papers (upsert_paper js now published p d)))"
proof (cases "find_paper d (ap_id p)")
  case None
  then have "ap_id p \<notin> set (map paper_id (papers d))"
    by (auto simp: find_paper_def find_None_set)
  with assms None show ?thesis
    by (simp add: upsert_paper_def created_def)
next
  case (Some existing)
  have "map paper_id (map (\<lambda>x. if paper_id x = ap_id p then refreshed js now published p x else x)
          (papers d)) = map paper_id (papers d)"
    by (simp add: comp_def cong: map_cong)
  with assms Some show ?thesis
    by (simp add: upsert_paper_def del: map_map)
qed

lemma upsert_saved_found:
  "\<exists>s. find_saved (upsert_saved now uid pid d) uid pid = Some s"
  by (cases "find_saved d uid pid")
     (simp_all add: upsert_saved_def find_saved_def find_append_split)

lemma upsert_saved_same:
  "find_saved d uid pid = Some s \<Longrightarrow> upsert_saved now uid pid d = d"
  by (simp add: upsert_saved_def)

lemma upsert_saved_distinct:
  assumes "distinct (map (\<lambda>s. (userId s, paperId s)) (savedPapers d))"
  shows "distinct (map (\<lambda>s. (userId s, paperId s)) (savedPapers (upsert_saved now uid pid d)))"
proof (cases "find_saved d uid pid")
  case None
  then have "(uid, pid) \<notin> set (map (\<lambda>s. (userId s, paperId s)) (savedPapers d))"
    by (auto simp: find_saved_def find_None_set)
  with assms None show ?thesis
    by (simp add: upsert_saved_def)
next
  case (Some s)
  with assms show ?thesis
    by (simp add: upsert_saved_def)
qed


text \<open>
  C1. As stated, for every user and every record, the claim fails where the save
  throws: for a signed-in user who has no email address, and for a record whose
  published date is no date, the first call and the second call both throw, and
  neither a Paper row nor a SavedPaper row is left.
\<close>

theorem save_twice_throws:
  "fst (savePaperAction demo_js no_email_env 1000 lora empty_db) = Inl NoEmail \<and>
   fst (savePaperAction demo_js no_email_env 2000 lora
          (snd (savePaperAction demo_js no_email_env 1000 lora empty_db))) = Inl NoEmail \<and>
   papers (snd (savePaperAction demo_js no_email_env 2000 lora
          (snd (savePaperAction demo_js no_email_env 1000 lora empty_db)))) = [] \<and>
   savedPapers (snd (savePaperAction demo_js no_email_env 2000 lora
          (snd (savePaperAction demo_js no_email_env 1000 lora empty_db)))) = [] \<and>
   fst (savePaperAction demo_js (demo_env []) 1000 undated empty_db) = Inl ValidationError \<and>
   fst (savePaperAction demo_js (demo_env []) 2000 undated
          (snd (savePaperAction demo_js (demo_env []) 1000 undated empty_db))) =
     Inl ValidationError \<and>
   papers (snd (savePaperAction demo_js (demo_env []) 2000 undated
          (snd (savePaperAction demo_js (demo_env []) 1000 undated empty_db)))) = [] \<and>
   savedPapers (snd (savePaperAction demo_js (demo_env []) 2000 undated
          (snd (savePaperAction demo_js (demo_env []) 1000 undated empty_db)))) = []"
  by code_simp

text \<open>
  C1, amended. Whenever the first save returns normally, on a store that satisfies
  its constraints: after it there is exactly one Paper row with the record's
  identifier and exactly one SavedPaper row of the user and the paper; a second save
  of the same record by the same user returns normally with the same result, leaves
  the SavedPaper table and every other table as they were, and leaves that one Paper
  row with every field as after the first save, the timestamp \<open>updatedAt\<close> apart
  (the store sets it to the time of the second save).
\<close>

theorem save_twice:
  assumes ok: "store_ok d" and first: "savePaperAction js e t1 p d = (Inr started, d1)"
  shows "\<exists>row user link.
     filter (\<lambda>r. paper_id r = ap_id p) (papers d1) = [row] \<and>
     getCurrentUser e d1 = (Inr user, d1) \<and>
     filter (\<lambda>s. userId s = user_id user \<and> paperId s = ap_id p) (savedPapers d1) = [link] \<and>
     savePaperAction js e t2 p d1 =
       (Inr started,
        d1\<lparr>papers := map (\<lambda>r. if paper_id r = ap_id p then r\<lparr>updatedAt := t2\<rparr> else r)
                         (papers d1)\<rparr>) \<and>
     filter (\<lambda>r. paper_id r = ap_id p)
       (map (\<lambda>r. if paper_id r = ap_id p then r\<lparr>updatedAt := t2\<rparr> else r) (papers d1)) =
       [row\<lparr>updatedAt := t2\<rparr>]"
proof -
  let ?g = "\<lambda>r. if paper_id r = ap_id p then r\<lparr>updatedAt := t2\<rparr> else r"
  let ?task = "case ap_pdfLink p of None \<Rightarrow> None
     | Some l \<Rightarrow> if l = [] then None else Some \<lparr>task_paper = ap_id p, task_pdf = l\<rparr>"
  obtain ru d0 where gu0: "getCurrentUser e d = (ru, d0)"
    by (cases "getCurrentUser e d") simp
  from first savePaperAction_cases [OF gu0, of js t1 p]
  obtain user published where ru: "ru = Inr user"
    and date: "new_Date js (ap_published p) = Some published"
    and started: "started = ?task"
    and d1: "d1 = upsert_saved t1 (user_id user) (ap_id p) (upsert_paper js t1 published p d0)"
    by (auto split: sum.splits option.splits)
  let ?dp = "upsert_paper js t1 published p d0"
  have gu: "getCurrentUser e d = (Inr user, d0)"
    using gu0 ru by simp
  note fr0 = getCurrentUser_frame [OF gu]
  note frp = upsert_paper_frame [of js t1 published p d0]
  note frs = upsert_saved_frame [of t1 "user_id user" "ap_id p" ?dp]
  have users1: "users d1 = users d0" and papers1: "papers d1 = papers ?dp"
    using frp frs by (simp_all add: d1)
  have again: "getCurrentUser e d1 = (Inr user, d1)"
    using getCurrentUser_again [OF gu users1] .
  obtain row where row: "find_paper d1 (ap_id p) = Some row"
    using upsert_paper_found [of js t1 published p d0] papers1
    by (auto simp: find_paper_def)
  have dist_p: "distinct (map paper_id (papers d1))"
  proof -
    have "distinct (map paper_id (papers d0))"
      using ok fr0 by (simp add: store_ok_def)
    from upsert_paper_distinct [OF this] show ?thesis
      by (simp add: papers1)
  qed
  have one_row: "filter (\<lambda>r. paper_id r = ap_id p) (papers d1) = [row]"
    using distinct_filter_single [OF dist_p, of "ap_id p" row] row
    by (simp add: find_paper_def)
  have row_id: "paper_id row = ap_id p"
    using find_Some_set [of "\<lambda>r. paper_id r = ap_id p" "papers d1" row] row
    by (simp add: find_paper_def)
  obtain link where link: "find_saved d1 (user_id user) (ap_id p) = Some link"
    using upsert_saved_found [of t1 "user_id user" "ap_id p" ?dp] by (auto simp: d1)
  have dist_s: "distinct (map (\<lambda>s. (userId s, paperId s)) (savedPapers d1))"
  proof -
    have "distinct (map (\<lambda>s. (userId s, paperId s)) (savedPapers ?dp))"
      using ok fr0 frp by (simp add: store_ok_def)
    from upsert_saved_distinct [OF this] show ?thesis
      by (simp add: d1)
  qed
  have one_link: "filter (\<lambda>s. userId s = user_id user \<and> paperId s = ap_id p) (savedPapers d1) =
      [link]"
    using distinct_filter_single [OF dist_s, of "(user_id user, ap_id p)" link] link
    by (simp add: find_saved_def)
  have rows: "map (\<lambda>x. if paper_id x = ap_id p then refreshed js t2 published p x else x)
                (papers d1) = map ?g (papers d1)"
  proof (rule map_cong [OF refl])
    fix x
    assume "x \<in> set (papers d1)"
    then have "x \<in> set (papers ?dp)"
      by (simp add: papers1)
    from upsert_paper_rows [OF this] show
      "(if paper_id x = ap_id p then refreshed js t2 published p x else x) = ?g x"
      by simp
  qed
  have up2: "upsert_paper js t2 published p d1 = d1\<lparr>papers := map ?g (papers d1)\<rparr>"
    using row rows by (simp add: upsert_paper_def)
  have "find_saved (d1\<lparr>papers := map ?g (papers d1)\<rparr>) (user_id user) (ap_id p) = Some link"
    using link by (simp add: find_saved_def)
  from upsert_saved_same [OF this]
  have second: "savePaperAction js e t2 p d1 = (Inr started, d1\<lparr>papers := map ?g (papers d1)\<rparr>)"
    using savePaperAction_cases [OF again, of js t2 p] date started up2 by simp
  have "filter (\<lambda>r. paper_id r = ap_id p) (map ?g (papers d1)) =
        map ?g (filter (\<lambda>r. paper_id r = ap_id p) (papers d1))"
    by (rule filter_map_preserve) simp
  then have after: "filter (\<lambda>r. paper_id r = ap_id p) (map ?g (papers d1)) = [row\<lparr>updatedAt := t2\<rparr>]"
    using one_row row_id by simp
  from one_row again one_link second after show ?thesis
    by blast
qed

theorem save_twice_witness:
  "\<exists>row link.
     filter (\<lambda>r. paper_id r = ''2106.09685v2'') (papers saved_db) = [row] \<and>
     filter (\<lambda>s. userId s = 1 \<and> paperId s = ''2106.09685v2'') (savedPapers saved_db) = [link] \<and>
     savePaperAction demo_js (demo_env lora_analysis_text) 2000 lora saved_db =
       (Inr (Some \<lparr>task_paper = ''2106.09685v2'',
                    task_pdf = ''http://arxiv.org/pdf/2106.09685v2''\<rparr>),
        saved_db\<lparr>papers := [row\<lparr>updatedAt := 2000\<rparr>]\<rparr>)"
proof -
  have ok: "store_ok empty_db"
    by code_simp
  have first: "savePaperAction demo_js (demo_env lora_analysis_text) 1000 lora empty_db =
      (Inr (Some \<lparr>task_paper = ''2106.09685v2'',
                   task_pdf = ''http://arxiv.org/pdf/2106.09685v2''\<rparr>), saved_db)"
    by code_simp
  have pid: "ap_id lora = ''2106.09685v2''"
    by code_simp
  have whole: "filter (\<lambda>r. paper_id r = ''2106.09685v2'') (papers saved_db) = papers saved_db"
    by code_simp
  have cur: "getCurrentUser (demo_env lora_analysis_text) saved_db =
      (Inr (hd (users saved_db)), saved_db)"
    by code_simp
  have one: "user_id (hd (users saved_db)) = 1"
    by code_simp
  from save_twice [OF ok first, of 2000] obtain row user link where
    a: "filter (\<lambda>r. paper_id r = ap_id lora) (papers saved_db) = [row]"
    and b: "getCurrentUser (demo_env lora_analysis_text) saved_db = (Inr user, saved_db)"
    and c: "filter (\<lambda>s. userId s = user_id user \<and> paperId s = ap_id lora) (savedPapers saved_db) =
        [link]"
    and d: "savePaperAction demo_js (demo_env lora_analysis_text) 2000 lora saved_db =
       (Inr (Some \<lparr>task_paper = ''2106.09685v2'',
                    task_pdf = ''http://arxiv.org/pdf/2106.09685v2''\<rparr>),
        saved_db\<lparr>papers := map (\<lambda>r. if paper_id r = ap_id lora then r\<lparr>updatedAt := 2000\<rparr> else r)
                               (papers saved_db)\<rparr>)"
    by blast
  from a whole pid have all: "papers saved_db = [row]"
    by simp
  have "paper_id row = ''2106.09685v2''"
    using a pid by (metis (mono_tags, lifting) filter_eq_Cons_iff)
  with d all pid have d': "savePaperAction demo_js (demo_env lora_analysis_text) 2000 lora saved_db =
       (Inr (Some \<lparr>task_paper = ''2106.09685v2'',
                    task_pdf = ''http://arxiv.org/pdf/2106.09685v2''\<rparr>),
        saved_db\<lparr>papers := [row\<lparr>updatedAt := 2000\<rparr>]\<rparr>)"
    by simp
  from b cur one have "user_id user = 1"
    by simp
  with a c d' pid show ?thesis
    by auto
qed

lemma connect_frame:
  "users (connect p tid d) = users d \<and> papers (connect p tid d) = papers d \<and>
   savedPapers (connect p tid d) = savedPapers d \<and> topics (connect p tid d) = topics d"
  by (simp add: connect_def)

lemma connect_edges:
  "(p, tid) \<in> set (paperTopics (connect p tid d)) \<and>
   set (paperTopics d) \<subseteq> set (paperTopics (connect p tid d))"
  by (auto simp: connect_def)

lemma connect_same: "(p, tid) \<in> set (paperTopics d) \<Longrightarrow> connect p tid d = d"
  by (simp add: connect_def)

lemma upsert_topic_frame:
  "upsert_topic n d = (t, d1) \<Longrightarrow>
   users d1 = users d \<and> papers d1 = papers d \<and> savedPapers d1 = savedPapers d \<and>
   paperTopics d1 = paperTopics d"
  by (auto simp: upsert_topic_def Let_def split: option.splits)

lemma upsert_topic_found:
  "upsert_topic n d = (t, d1) \<Longrightarrow> find_topic d1 n = Some t"
  by (auto simp: upsert_topic_def Let_def find_topic_def find_append_split split: option.splits)

lemma upsert_topic_same:
  "find_topic d n = Some t \<Longrightarrow> upsert_topic n d = (t, d)"
  by (simp add: upsert_topic_def)

lemma upsert_topic_stable:
  "upsert_topic n d = (t, d1) \<Longrightarrow> find_topic d m = Some t' \<Longrightarrow> find_topic d1 m = Some t'"
  by (auto simp: upsert_topic_def Let_def find_topic_def find_append_split split: option.splits)

lemma upsert_topic_distinct:
  assumes "upsert_topic n d = (t, d1)" and "distinct (map topic_name (topics d))"
  shows "distinct (map topic_name (topics d1))"
proof (cases "find_topic d n")
  case None
  then have "n \<notin> set (map topic_name (topics d))"
    by (auto simp: find_topic_def find_None_set)
  with assms None show ?thesis
    by (auto simp: upsert_topic_def Let_def)
next
  case (Some existing)
  with assms show ?thesis
    by (simp add: upsert_topic_def)
qed

lemma connectOrCreate_frame:
  "users (connectOrCreate p n d) = users d \<and> papers (connectOrCreate p n d) = papers d \<and>
   savedPapers (connectOrCreate p n d) = savedPapers d"
proof -
  obtain t d1 where u: "upsert_topic n d = (t, d1)"
    by (cases "upsert_topic n d") simp
  from upsert_topic_frame [OF u] connect_frame [of p "topic_id t" d1] show ?thesis
    by (simp add: connectOrCreate_def u)
qed

lemma connectOrCreate_distinct:
  "distinct (map topic_name (topics d)) \<Longrightarrow>
   distinct (map topic_name (topics (connectOrCreate p n d)))"
proof -
  assume a: "distinct (map topic_name (topics d))"
  obtain t d1 where u: "upsert_topic n d = (t, d1)"
    by (cases "upsert_topic n d") simp
  from upsert_topic_distinct [OF u a] connect_frame [of p "topic_id t" d1] show ?thesis
    by (simp add: connectOrCreate_def u)
qed

lemma connectOrCreate_attached:
  "\<exists>t. find_topic (connectOrCreate p n d) n = Some t \<and>
        (p, topic_id t) \<in> set (paperTopics (connectOrCreate p n d))"
proof -
  obtain t d1 where u: "upsert_topic n d = (t, d1)"
    by (cases "upsert_topic n d") simp
  from upsert_topic_found [OF u] connect_frame [of p "topic_id t" d1]
    connect_edges [of p "topic_id t" d1]
  show ?thesis
    by (auto simp: connectOrCreate_def u find_topic_def)
qed

lemma connectOrCreate_stable:
  assumes "find_topic d m = Some t'" and "(q, topic_id t') \<in> set (paperTopics d)"
  shows "find_topic (connectOrCreate p n d) m = Some t' \<and>
         (q, topic_id t') \<in> set (paperTopics (connectOrCreate p n d))"
proof -
  obtain t d1 where u: "upsert_topic n d = (t, d1)"
    by (cases "upsert_topic n d") simp
  from upsert_topic_stable [OF u assms(1)] upsert_topic_frame [OF u]
    connect_frame [of p "topic_id t" d1] connect_edges [of p "topic_id t" d1] assms(2)
  show ?thesis
    by (auto simp: connectOrCreate_def u find_topic_def)
qed

lemma connectOrCreate_same:
  assumes "find_topic d n = Some t" and "(p, topic_id t) \<in> set (paperTopics d)"
  shows "connectOrCreate p n d = d"
  using assms by (simp add: connectOrCreate_def upsert_topic_same connect_same)


lemma fold_connectOrCreate_distinct:
  "distinct (map topic_name (topics d)) \<Longrightarrow>
   distinct (map topic_name (topics (fold (connectOrCreate p) ns d)))"
  by (induction ns arbitrary: d) (simp_all add: connectOrCreate_distinct)

lemma fold_connectOrCreate_stable:
  "find_topic d m = Some t' \<Longrightarrow> (q, topic_id t') \<in> set (paperTopics d) \<Longrightarrow>
   find_topic (fold (connectOrCreate p) ns d) m = Some t' \<and>
   (q, topic_id t') \<in> set (paperTopics (fold (connectOrCreate p) ns d))"
proof (induction ns arbitrary: d)
  case Nil
  then show ?case by simp
next
  case (Cons n ns)
  from connectOrCreate_stable [OF Cons.prems, of p n]
  show ?case
    using Cons.IH [of "connectOrCreate p n d"] by simp
qed

lemma fold_connectOrCreate_attached:
  "n \<in> set ns \<Longrightarrow>
   \<exists>t. find_topic (fold (connectOrCreate p) ns d) n = Some t \<and>
        (p, topic_id t) \<in> set (paperTopics (fold (connectOrCreate p) ns d))"
proof (induction ns arbitrary: d)
  case Nil
  then show ?case by simp
next
  case (Cons m ns)
  show ?case
  proof (cases "n = m")
    case True
    from connectOrCreate_attached [of p n d] obtain t where
      t: "find_topic (connectOrCreate p n d) n = Some t"
         "(p, topic_id t) \<in> set (paperTopics (connectOrCreate p n d))"
      by blast
    from fold_connectOrCreate_stable [OF t, of p ns] True show ?thesis
      by auto
  next
    case False
    with Cons.prems have "n \<in> set ns"
      by simp
    from Cons.IH [OF this, of "connectOrCreate p m d"] show ?thesis
      by simp
  qed
qed

lemma fold_connectOrCreate_same:
  "(\<forall>n\<in>set ns. \<exists>t. find_topic d n = Some t \<and> (p, topic_id t) \<in> set (paperTopics d)) \<Longrightarrow>
   fold (connectOrCreate p) ns d = d"
proof (induction ns)
  case Nil
  then show ?case by simp
next
  case (Cons n ns)
  then obtain t where "find_topic d n = Some t" "(p, topic_id t) \<in> set (paperTopics d)"
    by auto
  from connectOrCreate_same [OF this] Cons show ?case
    by simp
qed

lemma topic_names_mem:
  "topic_names ts = Inr ns \<Longrightarrow> JStr n \<in> set ts \<Longrightarrow> n \<in> set ns"
proof (induction ts arbitrary: ns rule: topic_names.induct)
  case (2 m others)
  then show ?case
    by (auto split: sum.splits)
qed simp_all

lemma topic_names_origin:
  "topic_names ts = Inr ns \<Longrightarrow> n \<in> set ns \<Longrightarrow> JStr n \<in> set ts"
proof (induction ts arbitrary: ns rule: topic_names.induct)
  case (2 m others)
  then show ?case
    by (auto split: sum.splits)
qed simp_all

lemma update_with_analysis_result:
  assumes "update_with_analysis now pid result d = Inr d1"
  shows "\<exists>ws wi ts ns.
     topics_arg result = Inr ts \<and> topic_names ts = Inr ns \<and>
     d1 = fold (connectOrCreate pid) ns
            (d\<lparr>papers := map (\<lambda>r. if paper_id r = pid then enriched now ws wi r else r)
                             (papers d)\<rparr>)"
  using assms
  by (auto simp: update_with_analysis_def split: sum.splits option.splits)

lemma addTopicToPaperAction_found:
  assumes "find_paper d pid = Some r"
  shows "addTopicToPaperAction pid n d = (Inr (), connectOrCreate pid n d)"
proof -
  obtain t d1 where u: "upsert_topic n d = (t, d1)"
    by (cases "upsert_topic n d") simp
  from upsert_topic_frame [OF u] assms have "find_paper d1 pid = Some r"
    by (simp add: find_paper_def)
  then show ?thesis
    by (simp add: addTopicToPaperAction_def connectOrCreate_def u)
qed

lemma savePaperAction_frame:
  "topics (snd (savePaperAction js e now p d)) = topics d \<and>
   paperTopics (snd (savePaperAction js e now p d)) = paperTopics d"
proof -
  obtain ru d0 where gu: "getCurrentUser e d = (ru, d0)"
    by (cases "getCurrentUser e d") simp
  from getCurrentUser_frame [OF gu] show ?thesis
    by (simp add: savePaperAction_cases [OF gu] upsert_saved_frame upsert_paper_frame
        split: sum.splits option.splits)
qed

lemma update_with_analysis_distinct:
  assumes "update_with_analysis now pid result d = Inr d1"
    and "distinct (map topic_name (topics d))"
  shows "distinct (map topic_name (topics d1))"
proof -
  from update_with_analysis_result [OF assms(1)] obtain ws wi ns where
    d1: "d1 = fold (connectOrCreate pid) ns
            (d\<lparr>papers := map (\<lambda>r. if paper_id r = pid then enriched now ws wi r else r)
                             (papers d)\<rparr>)"
    by blast
  show ?thesis
    unfolding d1 by (rule fold_connectOrCreate_distinct) (simp add: assms(2))
qed

lemma analyze_and_update_distinct:
  assumes "analyze_and_update js e now pid pdf d = Inr d1"
    and "distinct (map topic_name (topics d))"
  shows "distinct (map topic_name (topics d1))"
proof -
  from assms(1) obtain result where "update_with_analysis now pid result d = Inr d1"
    by (auto simp: analyze_and_update_def split: sum.splits)
  from update_with_analysis_distinct [OF this assms(2)] show ?thesis .
qed

lemma background_analysis_distinct:
  assumes "distinct (map topic_name (topics d))"
  shows "distinct (map topic_name (topics (fst (background_analysis js e now t d))))"
proof (cases "analyze_and_update js e now (task_paper t) (task_pdf t) d")
  case (Inl err)
  with assms show ?thesis
    by (simp add: background_analysis_def)
next
  case (Inr d1)
  from analyze_and_update_distinct [OF Inr assms] Inr show ?thesis
    by (simp add: background_analysis_def)
qed

lemma regenerateSummaryAction_distinct:
  assumes "distinct (map topic_name (topics d))"
  shows "distinct (map topic_name (topics (snd (regenerateSummaryAction js e now pid d))))"
proof (cases "find_paper d pid")
  case None
  with assms show ?thesis
    by (simp add: regenerateSummaryAction_def)
next
  case (Some paper)
  show ?thesis
  proof (cases "analyze_and_update js e now pid (or_else (filePath paper) []) d")
    case (Inl err)
    with assms Some show ?thesis
      by (simp add: regenerateSummaryAction_def)
  next
    case (Inr d1)
    from analyze_and_update_distinct [OF Inr assms] Inr Some assms show ?thesis
      by (simp add: regenerateSummaryAction_def)
  qed
qed

lemma addTopicToPaperAction_distinct:
  assumes "distinct (map topic_name (topics d))"
  shows "distinct (map topic_name (topics (snd (addTopicToPaperAction pid n d))))"
proof -
  obtain t d1 where u: "upsert_topic n d = (t, d1)"
    by (cases "upsert_topic n d") simp
  from upsert_topic_distinct [OF u assms] connect_frame [of pid "topic_id t" d1] show ?thesis
    by (simp add: addTopicToPaperAction_def u split: option.splits)
qed

lemma deletePaperAction_frame:
  "papers (snd (deletePaperAction e pid d)) = papers d \<and>
   topics (snd (deletePaperAction e pid d)) = topics d \<and>
   paperTopics (snd (deletePaperAction e pid d)) = paperTopics d"
proof -
  obtain ru d0 where gu: "getCurrentUser e d = (ru, d0)"
    by (cases "getCurrentUser e d") simp
  from getCurrentUser_frame [OF gu] show ?thesis
    by (simp add: deletePaperAction_def gu split: sum.splits option.splits)
qed

lemma getPaperByIdAction_frame:
  "papers (snd (getPaperByIdAction js e ident d)) = papers d \<and>
   savedPapers (snd (getPaperByIdAction js e ident d)) = savedPapers d \<and>
   topics (snd (getPaperByIdAction js e ident d)) = topics d \<and>
   paperTopics (snd (getPaperByIdAction js e ident d)) = paperTopics d"
proof -
  obtain ru d0 where gu: "getCurrentUser e d = (ru, d0)"
    by (cases "getCurrentUser e d") simp
  from getCurrentUser_frame [OF gu] show ?thesis
    by (simp add: getPaperByIdAction_def gu split: sum.splits option.splits)
qed

lemma getSavedPapersAction_frame:
  "papers (snd (getSavedPapersAction js e d)) = papers d \<and>
   savedPapers (snd (getSavedPapersAction js e d)) = savedPapers d \<and>
   topics (snd (getSavedPapersAction js e d)) = topics d \<and>
   paperTopics (snd (getSavedPapersAction js e d)) = paperTopics d"
proof -
  obtain ru d0 where gu: "getCurrentUser e d = (ru, d0)"
    by (cases "getCurrentUser e d") simp
  from getCurrentUser_frame [OF gu] show ?thesis
    by (simp add: getSavedPapersAction_def gu split: sum.splits)
qed

lemma removeTopicFromPaperAction_frame:
  "papers (snd (removeTopicFromPaperAction pid tid d)) = papers d \<and>
   savedPapers (snd (removeTopicFromPaperAction pid tid d)) = savedPapers d \<and>
   topics (snd (removeTopicFromPaperAction pid tid d)) = topics d"
  by (simp add: removeTopicFromPaperAction_def split: option.splits)

lemma perform_distinct:
  assumes "distinct (map topic_name (topics d))"
  shows "distinct (map topic_name (topics (perform js a d)))"
proof (cases a)
  case (Save e now p)
  with assms show ?thesis by (simp add: savePaperAction_frame)
next
  case (Background e now t)
  with assms show ?thesis by (simp add: background_analysis_distinct)
next
  case (Regenerate e now pid)
  with assms show ?thesis by (simp add: regenerateSummaryAction_distinct)
next
  case (AddTopic pid n)
  with assms show ?thesis by (simp add: addTopicToPaperAction_distinct)
next
  case (RemoveTopic pid tid)
  with assms show ?thesis by (simp add: removeTopicFromPaperAction_frame)
next
  case (Delete e pid)
  with assms show ?thesis by (simp add: deletePaperAction_frame)
next
  case (GetPaper e ident)
  with assms show ?thesis by (simp add: getPaperByIdAction_frame)
next
  case (GetSaved e)
  with assms show ?thesis by (simp add: getSavedPapersAction_frame)
qed

lemma run_distinct:
  "distinct (map topic_name (topics d)) \<Longrightarrow> distinct (map topic_name (topics (run js acts d)))"
  unfolding run_def by (induction acts arbitrary: d) (simp_all add: perform_distinct)

lemma one_topic_row:
  assumes "distinct (map topic_name (topics d))" and "find_topic d n = Some t"
  shows "filter (\<lambda>t. topic_name t = n) (topics d) = [t]"
  using distinct_filter_single [OF assms(1), of n t] assms(2) by (simp add: find_topic_def)

lemma update_with_analysis_attached:
  assumes up: "update_with_analysis now pid result d = Inr d1"
    and ts: "topics_arg result = Inr ts" and n: "JStr n \<in> set ts"
  shows "\<exists>t. find_topic d1 n = Some t \<and> (pid, topic_id t) \<in> set (paperTopics d1)"
proof -
  from update_with_analysis_result [OF up] ts obtain ws wi ns where
    ns: "topic_names ts = Inr ns"
    and d1: "d1 = fold (connectOrCreate pid) ns
            (d\<lparr>papers := map (\<lambda>r. if paper_id r = pid then enriched now ws wi r else r)
                             (papers d)\<rparr>)"
    by auto
  from topic_names_mem [OF ns n] have "n \<in> set ns" .
  from fold_connectOrCreate_attached [OF this] show ?thesis
    unfolding d1 .
qed

lemma update_with_analysis_stable:
  assumes up: "update_with_analysis now pid result d = Inr d1"
    and t: "find_topic d m = Some t" "(q, topic_id t) \<in> set (paperTopics d)"
  shows "find_topic d1 m = Some t \<and> (q, topic_id t) \<in> set (paperTopics d1)"
proof -
  from update_with_analysis_result [OF up] obtain ws wi ns where
    d1: "d1 = fold (connectOrCreate pid) ns
            (d\<lparr>papers := map (\<lambda>r. if paper_id r = pid then enriched now ws wi r else r)
                             (papers d)\<rparr>)"
    by blast
  let ?d = "d\<lparr>papers := map (\<lambda>r. if paper_id r = pid then enriched now ws wi r else r) (papers d)\<rparr>"
  have "find_topic ?d m = Some t" "(q, topic_id t) \<in> set (paperTopics ?d)"
    using t by (simp_all add: find_topic_def)
  from fold_connectOrCreate_stable [OF this] show ?thesis
    unfolding d1 .
qed

lemma update_with_analysis_same:
  assumes up: "update_with_analysis now pid result d = Inr d1"
    and ts: "topics_arg result = Inr ts"
    and all: "\<forall>n. JStr n \<in> set ts \<longrightarrow>
        (\<exists>t. find_topic d n = Some t \<and> (pid, topic_id t) \<in> set (paperTopics d))"
  shows "topics d1 = topics d \<and> paperTopics d1 = paperTopics d"
proof -
  from update_with_analysis_result [OF up] ts obtain ws wi ns where
    ns: "topic_names ts = Inr ns"
    and d1: "d1 = fold (connectOrCreate pid) ns
            (d\<lparr>papers := map (\<lambda>r. if paper_id r = pid then enriched now ws wi r else r)
                             (papers d)\<rparr>)"
    by auto
  let ?d = "d\<lparr>papers := map (\<lambda>r. if paper_id r = pid then enriched now ws wi r else r) (papers d)\<rparr>"
  have mem: "n \<in> set ns \<Longrightarrow> JStr n \<in> set ts" for n
    using topic_names_origin [OF ns] .
  have "\<forall>n\<in>set ns. \<exists>t. find_topic ?d n = Some t \<and> (pid, topic_id t) \<in> set (paperTopics ?d)"
    using all mem by (simp add: find_topic_def)
  from fold_connectOrCreate_same [OF this] show ?thesis
    by (simp add: d1)
qed


text \<open>
  C9. On a store in which no two Topic rows have the same name:
  \<^item> no sequence of actions (saves, background units, regenerations, topics added or
    removed by hand, removals from the library, reads) leads to a store in which two
    Topic rows have the same name;
  \<^item> adding the topic \<open>n\<close> by hand to two papers of the catalog leaves exactly one
    Topic row named \<open>n\<close>, joined to both papers; and so does the update of two papers
    with analyses that both list the topic \<open>m\<close>;
  \<^item> adding by hand a topic that the paper already has changes nothing and is no
    error, and an update with an analysis whose topics the paper already has leaves
    the Topic rows and the join rows as they were.
\<close>

theorem topic_rows_unique:
  assumes names: "distinct (map topic_name (topics d))"
  shows
   "distinct (map topic_name (topics (run js acts d))) \<and>
    (find_paper d p1 = Some r1 \<and> find_paper d p2 = Some r2 \<longrightarrow>
       (\<exists>t. filter (\<lambda>x. topic_name x = n)
              (topics (snd (addTopicToPaperAction p2 n (snd (addTopicToPaperAction p1 n d))))) =
              [t] \<and>
            (p1, topic_id t) \<in>
              set (paperTopics (snd (addTopicToPaperAction p2 n
                                       (snd (addTopicToPaperAction p1 n d))))) \<and>
            (p2, topic_id t) \<in>
              set (paperTopics (snd (addTopicToPaperAction p2 n
                                       (snd (addTopicToPaperAction p1 n d))))))) \<and>
    (update_with_analysis now1 q1 res1 d = Inr d1 \<and>
     update_with_analysis now2 q2 res2 d1 = Inr d2 \<and>
     topics_arg res1 = Inr ts1 \<and> JStr m \<in> set ts1 \<and>
     topics_arg res2 = Inr ts2 \<and> JStr m \<in> set ts2 \<longrightarrow>
       (\<exists>t. filter (\<lambda>x. topic_name x = m) (topics d2) = [t] \<and>
            (q1, topic_id t) \<in> set (paperTopics d2) \<and>
            (q2, topic_id t) \<in> set (paperTopics d2))) \<and>
    (find_paper d p = Some r \<and> find_topic d k = Some t0 \<and>
     (p, topic_id t0) \<in> set (paperTopics d) \<longrightarrow>
       addTopicToPaperAction p k d = (Inr (), d)) \<and>
    (update_with_analysis now q res d = Inr d' \<and> topics_arg res = Inr ts \<and>
     (\<forall>k. JStr k \<in> set ts \<longrightarrow>
        (\<exists>t. find_topic d k = Some t \<and> (q, topic_id t) \<in> set (paperTopics d))) \<longrightarrow>
       topics d' = topics d \<and> paperTopics d' = paperTopics d)"
proof -
  have inv: "distinct (map topic_name (topics (run js acts d)))"
    using run_distinct [OF names] .
  have manual: "\<exists>t. filter (\<lambda>x. topic_name x = n)
              (topics (snd (addTopicToPaperAction p2 n (snd (addTopicToPaperAction p1 n d))))) =
              [t] \<and>
            (p1, topic_id t) \<in>
              set (paperTopics (snd (addTopicToPaperAction p2 n
                                       (snd (addTopicToPaperAction p1 n d))))) \<and>
            (p2, topic_id t) \<in>
              set (paperTopics (snd (addTopicToPaperAction p2 n
                                       (snd (addTopicToPaperAction p1 n d)))))"
    if rows: "find_paper d p1 = Some r1" "find_paper d p2 = Some r2"
  proof -
    let ?a = "connectOrCreate p1 n d"
    let ?b = "connectOrCreate p2 n ?a"
    have a: "snd (addTopicToPaperAction p1 n d) = ?a"
      using addTopicToPaperAction_found [OF rows(1)] by simp
    have "find_paper ?a p2 = Some r2"
      using rows(2) connectOrCreate_frame [of p1 n d] by (simp add: find_paper_def)
    then have b: "snd (addTopicToPaperAction p2 n ?a) = ?b"
      using addTopicToPaperAction_found by simp
    from connectOrCreate_attached [of p1 n d] obtain t where
      t: "find_topic ?a n = Some t" "(p1, topic_id t) \<in> set (paperTopics ?a)"
      by blast
    from connectOrCreate_stable [OF t, of p2 n] have
      t1: "find_topic ?b n = Some t" "(p1, topic_id t) \<in> set (paperTopics ?b)"
      by simp_all
    from connectOrCreate_attached [of p2 n ?a] t1(1) have
      t2: "(p2, topic_id t) \<in> set (paperTopics ?b)"
      by auto
    have "distinct (map topic_name (topics ?b))"
      using connectOrCreate_distinct [OF connectOrCreate_distinct [OF names]] .
    from one_topic_row [OF this t1(1)] t1(2) t2 show ?thesis
      by (simp add: a b)
  qed
  have merge: "\<exists>t. filter (\<lambda>x. topic_name x = m) (topics d2) = [t] \<and>
            (q1, topic_id t) \<in> set (paperTopics d2) \<and>
            (q2, topic_id t) \<in> set (paperTopics d2)"
    if ups: "update_with_analysis now1 q1 res1 d = Inr d1"
         "update_with_analysis now2 q2 res2 d1 = Inr d2"
      and ts: "topics_arg res1 = Inr ts1" "JStr m \<in> set ts1"
         "topics_arg res2 = Inr ts2" "JStr m \<in> set ts2"
  proof -
    from update_with_analysis_attached [OF ups(1) ts(1) ts(2)] obtain t where
      t: "find_topic d1 m = Some t" "(q1, topic_id t) \<in> set (paperTopics d1)"
      by blast
    from update_with_analysis_stable [OF ups(2) t] have
      t1: "find_topic d2 m = Some t" "(q1, topic_id t) \<in> set (paperTopics d2)"
      by simp_all
    from update_with_analysis_attached [OF ups(2) ts(3) ts(4)] t1(1) have
      t2: "(q2, topic_id t) \<in> set (paperTopics d2)"
      by auto
    have "distinct (map topic_name (topics d2))"
      using update_with_analysis_distinct [OF ups(2) update_with_analysis_distinct [OF ups(1) names]] .
    from one_topic_row [OF this t1(1)] t1(2) t2 show ?thesis
      by simp
  qed
  have again: "addTopicToPaperAction p k d = (Inr (), d)"
    if "find_paper d p = Some r" "find_topic d k = Some t0" "(p, topic_id t0) \<in> set (paperTopics d)"
    using addTopicToPaperAction_found [OF that(1), of k] connectOrCreate_same [OF that(2) that(3)]
    by simp
  have merged: "topics d' = topics d \<and> paperTopics d' = paperTopics d"
    if "update_with_analysis now q res d = Inr d'" "topics_arg res = Inr ts"
      "\<forall>k. JStr k \<in> set ts \<longrightarrow>
        (\<exists>t. find_topic d k = Some t \<and> (q, topic_id t) \<in> set (paperTopics d))"
    using update_with_analysis_same [OF that] .
  show ?thesis
    using inv manual merge again merged by blast
qed

theorem topic_rows_unique_witness:
  "distinct (map topic_name
     (topics (run demo_js [AddTopic ''2106.09685v2'' ''Agent'', AddTopic ''2309.12307v3'' ''Agent'']
                two_papers_db))) \<and>
   (\<exists>t. filter (\<lambda>x. topic_name x = ''Agent'')
          (topics (snd (addTopicToPaperAction ''2309.12307v3'' ''Agent''
                          (snd (addTopicToPaperAction ''2106.09685v2'' ''Agent'' two_papers_db))))) =
          [t] \<and>
        (''2106.09685v2'', topic_id t) \<in>
          set (paperTopics (snd (addTopicToPaperAction ''2309.12307v3'' ''Agent''
                          (snd (addTopicToPaperAction ''2106.09685v2'' ''Agent'' two_papers_db))))) \<and>
        (''2309.12307v3'', topic_id t) \<in>
          set (paperTopics (snd (addTopicToPaperAction ''2309.12307v3'' ''Agent''
                          (snd (addTopicToPaperAction ''2106.09685v2'' ''Agent'' two_papers_db)))))) \<and>
   (\<exists>t. filter (\<lambda>x. topic_name x = ''Agent'') (topics twice_merged_db) = [t] \<and>
        (''2106.09685v2'', topic_id t) \<in> set (paperTopics twice_merged_db) \<and>
        (''2309.12307v3'', topic_id t) \<in> set (paperTopics twice_merged_db)) \<and>
   addTopicToPaperAction ''2106.09685v2'' ''Agent'' two_papers_db = (Inr (), two_papers_db) \<and>
   topics once_merged_db = topics two_papers_db \<and>
   paperTopics once_merged_db = paperTopics two_papers_db"
proof -
  have names: "distinct (map topic_name (topics two_papers_db))"
    by code_simp
  have rows: "find_paper two_papers_db ''2106.09685v2'' = Some (hd (papers two_papers_db)) \<and>
              find_paper two_papers_db ''2309.12307v3'' = Some (hd (tl (papers two_papers_db)))"
    by code_simp
  have att: "find_paper two_papers_db ''2106.09685v2'' = Some (hd (papers two_papers_db)) \<and>
             find_topic two_papers_db ''Agent'' = Some (hd (topics two_papers_db)) \<and>
             (''2106.09685v2'', topic_id (hd (topics two_papers_db))) \<in>
               set (paperTopics two_papers_db)"
    by code_simp
  have ups: "update_with_analysis 2000 ''2106.09685v2'' lora_analysis two_papers_db =
               Inr once_merged_db \<and>
             update_with_analysis 2100 ''2309.12307v3'' lora_analysis once_merged_db =
               Inr twice_merged_db"
    by code_simp
  have ts: "topics_arg lora_analysis =
      Inr [JStr ''Agent'', JStr ''Large Language Models'', JStr ''Model Architecture''] \<and>
      JStr ''Agent'' \<in>
        set [JStr ''Agent'', JStr ''Large Language Models'', JStr ''Model Architecture'']"
    by code_simp
  have a1: "find_topic two_papers_db ''Agent'' = Some (hd (topics two_papers_db)) \<and>
      (''2106.09685v2'', topic_id (hd (topics two_papers_db))) \<in> set (paperTopics two_papers_db)"
    by code_simp
  have a2: "find_topic two_papers_db ''Large Language Models'' =
        Some (hd (tl (topics two_papers_db))) \<and>
      (''2106.09685v2'', topic_id (hd (tl (topics two_papers_db)))) \<in>
        set (paperTopics two_papers_db)"
    by code_simp
  have a3: "find_topic two_papers_db ''Model Architecture'' =
        Some (hd (tl (tl (topics two_papers_db)))) \<and>
      (''2106.09685v2'', topic_id (hd (tl (tl (topics two_papers_db))))) \<in>
        set (paperTopics two_papers_db)"
    by code_simp
  have all: "\<forall>k. JStr k \<in>
        set [JStr ''Agent'', JStr ''Large Language Models'', JStr ''Model Architecture''] \<longrightarrow>
      (\<exists>t. find_topic two_papers_db k = Some t \<and>
           (''2106.09685v2'', topic_id t) \<in> set (paperTopics two_papers_db))"
    using a1 a2 a3 by auto
  from topic_rows_unique [OF names, of demo_js
      "[AddTopic ''2106.09685v2'' ''Agent'', AddTopic ''2309.12307v3'' ''Agent'']"
      "''2106.09685v2''" "hd (papers two_papers_db)" "''2309.12307v3''"
      "hd (tl (papers two_papers_db))" "''Agent''"
      2000 "''2106.09685v2''" lora_analysis once_merged_db
      2100 "''2309.12307v3''" lora_analysis twice_merged_db
      "[JStr ''Agent'', JStr ''Large Language Models'', JStr ''Model Architecture'']" "''Agent''"
      "[JStr ''Agent'', JStr ''Large Language Models'', JStr ''Model Architecture'']"
      "''2106.09685v2''" "hd (papers two_papers_db)" "''Agent''" "hd (topics two_papers_db)"
      2000 "''2106.09685v2''" lora_analysis once_merged_db
      "[JStr ''Agent'', JStr ''Large Language Models'', JStr ''Model Architecture'']"]
    rows att ups ts all
  show ?thesis
    by blast
qed


lemma enriched_keeps [simp]:
  "paper_id (enriched now ws wi r) = paper_id r" "authors (enriched now ws wi r) = authors r"
  by (simp_all add: enriched_def)































end
